theory Spec2Isabelle
  imports Complex_Main
begin

section \<open>Numbers and values of the Python program\<close>

text \<open>
  A Python or numpy float is modelled as an extended real: a finite real number, the two
  infinities, or NaN. Arithmetic on finite values is exact (binary rounding and overflow,
  and the sign of zero, are not modelled); the infinities and NaN follow IEEE 754, which
  is what numpy and pandas compute without raising. Every comparison with NaN is false.
\<close>

datatype fl = Fin real | PInf | NInf | NaN

fun fneg :: "fl \<Rightarrow> fl" where
  "fneg (Fin a) = Fin (- a)"
| "fneg PInf = NInf"
| "fneg NInf = PInf"
| "fneg NaN = NaN"

fun fadd :: "fl \<Rightarrow> fl \<Rightarrow> fl" where
  "fadd (Fin a) (Fin b) = Fin (a + b)"
| "fadd NaN y = NaN"
| "fadd x NaN = NaN"
| "fadd PInf NInf = NaN"
| "fadd NInf PInf = NaN"
| "fadd PInf y = PInf"
| "fadd x PInf = PInf"
| "fadd NInf y = NInf"
| "fadd x NInf = NInf"

definition fsub :: "fl \<Rightarrow> fl \<Rightarrow> fl" where
  "fsub x y = fadd x (fneg y)"

text \<open>The sign of a value that is not NaN: \<open>-1\<close>, \<open>0\<close> or \<open>1\<close>.\<close>

fun fsgn :: "fl \<Rightarrow> int" where
  "fsgn (Fin a) = (if a < 0 then - 1 else if a = 0 then 0 else 1)"
| "fsgn PInf = 1"
| "fsgn NInf = - 1"
| "fsgn NaN = 0"

fun fmul :: "fl \<Rightarrow> fl \<Rightarrow> fl" where
  "fmul (Fin a) (Fin b) = Fin (a * b)"
| "fmul NaN y = NaN"
| "fmul x NaN = NaN"
| "fmul x y = (if fsgn x * fsgn y = 0 then NaN else if fsgn x * fsgn y > 0 then PInf else NInf)"

text \<open>
  Division as numpy computes it: a finite value over zero is an infinity, or NaN for
  \<open>0 / 0\<close>. (A division of plain Python floats by zero raises instead; every scalar
  division of the program is guarded by a test of its denominator, so that case is not
  reached there.)
\<close>

fun fdiv :: "fl \<Rightarrow> fl \<Rightarrow> fl" where
  "fdiv NaN y = NaN"
| "fdiv x NaN = NaN"
| "fdiv (Fin a) (Fin b) =
     (if b = 0 then (if a = 0 then NaN else if a > 0 then PInf else NInf) else Fin (a / b))"
| "fdiv (Fin a) y = Fin 0"
| "fdiv x (Fin b) = (if fsgn x * (if b < 0 then - 1 else 1) > 0 then PInf else NInf)"
| "fdiv x y = NaN"

fun flt :: "fl \<Rightarrow> fl \<Rightarrow> bool" where
  "flt NaN y = False"
| "flt x NaN = False"
| "flt (Fin a) (Fin b) = (a < b)"
| "flt PInf y = False"
| "flt x PInf = True"
| "flt NInf y = (y \<noteq> NInf)"
| "flt x NInf = False"

definition fgt :: "fl \<Rightarrow> fl \<Rightarrow> bool" where
  "fgt x y = flt y x"

definition fle :: "fl \<Rightarrow> fl \<Rightarrow> bool" where
  "fle x y = (x \<noteq> NaN \<and> y \<noteq> NaN \<and> (x = y \<or> flt x y))"

definition fge :: "fl \<Rightarrow> fl \<Rightarrow> bool" where
  "fge x y = fle y x"

text \<open>Python's \<open>x == y\<close> and \<open>x != y\<close> on floats: NaN is unequal to everything.\<close>

definition feq :: "fl \<Rightarrow> fl \<Rightarrow> bool" where
  "feq x y = (x \<noteq> NaN \<and> x = y)"

definition fne :: "fl \<Rightarrow> fl \<Rightarrow> bool" where
  "fne x y = (\<not> feq x y)"

text \<open>Truthiness of a float (\<open>bool(x)\<close>): only zero is false; NaN is true.\<close>

definition ftruthy :: "fl \<Rightarrow> bool" where
  "ftruthy x = (x \<noteq> Fin 0)"

text \<open>
  Python's builtin \<open>min(a, b)\<close> keeps \<open>a\<close> unless \<open>b < a\<close>; \<open>max(a, b)\<close> keeps
  \<open>a\<close> unless \<open>b > a\<close>.
\<close>

definition fmin :: "fl \<Rightarrow> fl \<Rightarrow> fl" where
  "fmin a b = (if flt b a then b else a)"

definition fmax :: "fl \<Rightarrow> fl \<Rightarrow> fl" where
  "fmax a b = (if fgt b a then b else a)"

fun fabs :: "fl \<Rightarrow> fl" where
  "fabs (Fin a) = Fin \<bar>a\<bar>"
| "fabs PInf = PInf"
| "fabs NInf = PInf"
| "fabs NaN = NaN"

text \<open>
  \<open>round(x, 2)\<close>: to the nearest multiple of 0.01, a tie going to the even
  neighbour; infinities and NaN are returned as they are.
\<close>

definition round_half_even :: "real \<Rightarrow> int" where
  "round_half_even y =
     (let f = \<lfloor>y\<rfloor>; d = y - of_int f
      in if d < 1 / 2 then f else if d > 1 / 2 then f + 1
         else if even f then f else f + 1)"

definition round2 :: "real \<Rightarrow> real" where
  "round2 x = of_int (round_half_even (x * 100)) / 100"

fun fround2 :: "fl \<Rightarrow> fl" where
  "fround2 (Fin a) = Fin (round2 a)"
| "fround2 x = x"

text \<open>
  A scalar entry of the snapshot dictionary: \<open>None\<close>, a bool, or a number. Python's
  bool is an int (\<open>True\<close> is 1), so both count as numbers for \<open>isinstance(v, (int,
  float))\<close> and in arithmetic; an arithmetic or ordering operation on \<open>None\<close> raises
  \<open>TypeError\<close>.
\<close>

datatype pynum = PNone | PBool bool | PFloat fl

datatype error = TypeError | KeyError | ZeroDivisionError | UnboundLocalError | FetchError

fun as_fl :: "pynum \<Rightarrow> error + fl" where
  "as_fl PNone = Inl TypeError"
| "as_fl (PBool b) = Inr (Fin (if b then 1 else 0))"
| "as_fl (PFloat x) = Inr x"

fun is_number :: "pynum \<Rightarrow> bool" where
  "is_number PNone = False"
| "is_number (PBool b) = True"
| "is_number (PFloat x) = True"

fun truthy :: "pynum \<Rightarrow> bool" where
  "truthy PNone = False"
| "truthy (PBool b) = b"
| "truthy (PFloat x) = ftruthy x"

text \<open>The numeric reading of a value already known to be a number (0 for \<open>None\<close>).\<close>

fun num_of :: "pynum \<Rightarrow> fl" where
  "num_of PNone = Fin 0"
| "num_of (PBool b) = Fin (if b then 1 else 0)"
| "num_of (PFloat x) = x"

text \<open>A string-valued entry may also hold \<open>None\<close>.\<close>

datatype pystr = SNone | SStr string

section \<open>The snapshot\<close>

text \<open>
  \<open>stock_data\<close> is a Python dict. Its scalar entries live in the map \<open>scalars\<close> (a key
  that is absent maps to \<open>None\<close> of the option type, a key holding Python's \<open>None\<close>
  to \<open>Some PNone\<close>); the entries of other types have a slot each, \<open>None\<close> when the
  key is absent.
\<close>

type_synonym column = nat

record dataframe =
  columns :: "column list"
  index :: "string list"
  cell :: "string \<Rightarrow> column \<Rightarrow> fl"

record bar =
  bar_open :: real
  bar_high :: real
  bar_low :: real
  bar_close :: real

record stock_data =
  scalars :: "string \<rightharpoonup> pynum"
  symbol :: "pystr option"
  currency :: "pystr option"
  currency_symbol :: "pystr option"
  net_income_history :: "fl list option"
  raw_financials :: "dataframe option"
  raw_balance_sheet :: "dataframe option"
  raw_cash_flow :: "dataframe option"
  history :: "bar list option option"

text \<open>\<open>stock_data.get(k, d)\<close> for a scalar key and a numeric default.\<close>

definition get_default :: "stock_data \<Rightarrow> string \<Rightarrow> real \<Rightarrow> pynum" where
  "get_default sd k d = (case scalars sd k of None \<Rightarrow> PFloat (Fin d) | Some v \<Rightarrow> v)"

text \<open>
  \<open>stock_data.get(k, d) or d\<close>: the entry when it is truthy, else the default. The
  result is never \<open>None\<close>, so it is returned as a number.
\<close>

definition get_or :: "stock_data \<Rightarrow> string \<Rightarrow> real \<Rightarrow> fl" where
  "get_or sd k d = (let v = get_default sd k d in if truthy v then num_of v else Fin d)"

section \<open>Recommendation\<close>

record recommendation =
  rec_status :: string
  rec_current_price :: pynum
  rec_intrinsic_value :: pynum
  margin_of_safety :: fl
  buy_price_min :: fl
  buy_price_max :: fl
  target_price :: fl
  rec_currency_symbol :: pystr

text \<open>The rupee sign, the default currency symbol, as its UTF-8 bytes.\<close>

definition rupee :: string where
  "rupee = [CHR 0xE2, CHR 0x82, CHR 0xB9]"

text \<open>\<open>a > b\<close> on two dictionary values: \<open>TypeError\<close> when one of them is \<open>None\<close>.\<close>

definition py_gt :: "pynum \<Rightarrow> pynum \<Rightarrow> error + bool" where
  "py_gt a b = (case as_fl a of Inl e \<Rightarrow> Inl e
     | Inr x \<Rightarrow> (case as_fl b of Inl e \<Rightarrow> Inl e | Inr y \<Rightarrow> Inr (fgt x y)))"

text \<open>
  \<open>_generate_recommendation\<close>. The test \<open>current_price > 0 and intrinsic_value > 0\<close>
  evaluates its second comparison only when the first is true. The two Buy branches
  multiply the price, the other two the intrinsic value; the returned \<open>target_price\<close>
  is the variable \<open>buy_price_max\<close>.
\<close>

definition generate_recommendation :: "stock_data \<Rightarrow> nat \<Rightarrow> error + recommendation" where
  "generate_recommendation sd total_score =
     (let current_price = get_default sd ''current_price'' 0;
          intrinsic_value = (case scalars sd ''intrinsic_value'' of
                               None \<Rightarrow> current_price | Some v \<Rightarrow> v)
      in case py_gt current_price (PFloat (Fin 0)) of Inl e \<Rightarrow> Inl e
         | Inr price_pos \<Rightarrow>
      (case (if price_pos then py_gt intrinsic_value (PFloat (Fin 0)) else Inr False) of
           Inl e \<Rightarrow> Inl e
         | Inr both_pos \<Rightarrow>
      (let mos = (if both_pos
                  then fmul (fsub (Fin 1) (fdiv (num_of current_price) (num_of intrinsic_value)))
                         (Fin 100)
                  else Fin 0);
           mk = (\<lambda>st lo hi. Inr \<lparr> rec_status = st, rec_current_price = current_price,
                   rec_intrinsic_value = intrinsic_value, margin_of_safety = mos,
                   buy_price_min = lo, buy_price_max = hi, target_price = hi,
                   rec_currency_symbol = (case currency_symbol sd of
                                            None \<Rightarrow> SStr rupee | Some s \<Rightarrow> s) \<rparr>)
       in if total_score \<ge> 12 \<and> fge mos (Fin 20) then
            mk ''Buy'' (fmul (num_of current_price) (Fin 0.95))
                       (fmul (num_of current_price) (Fin 1.05))
          else if total_score \<ge> 10 \<and> fge mos (Fin 10) then
            mk ''Buy'' (fmul (num_of current_price) (Fin 0.9)) (num_of current_price)
          else if total_score \<ge> 8 \<or> fge mos (Fin 0) then
            (case as_fl intrinsic_value of Inl e \<Rightarrow> Inl e
             | Inr iv \<Rightarrow> (let target = fmul iv (Fin 0.8)
                          in mk ''Hold'' (fmul target (Fin 0.9)) target))
          else
            (case as_fl intrinsic_value of Inl e \<Rightarrow> Inl e
             | Inr iv \<Rightarrow> (let target = fmul iv (Fin 0.7)
                          in mk ''Avoid'' (fmul target (Fin 0.9)) target)))))"


section \<open>Fundamental indicators\<close>

text \<open>
  A pandas DataFrame is modelled by its column labels, its row labels and its cells;
  labels are taken to be unique. A column label is a period (a date, here a number).
  \<open>df.empty\<close> holds when an axis has no label; \<open>df.loc[row, col]\<close> raises
  \<open>KeyError\<close> for a label that is not there.
\<close>

definition empty_frame :: dataframe where
  "empty_frame = \<lparr> columns = [], index = [], cell = (\<lambda>r c. NaN) \<rparr>"

definition df_empty :: "dataframe \<Rightarrow> bool" where
  "df_empty df = (columns df = [] \<or> index df = [])"

definition loc :: "dataframe \<Rightarrow> string \<Rightarrow> column \<Rightarrow> error + fl" where
  "loc df row col =
     (if row \<in> set (index df) \<and> col \<in> set (columns df) then Inr (cell df row col)
      else Inl KeyError)"

text \<open>The helper \<open>get_val\<close> of both \<open>get_piotroski_f_score\<close> and \<open>get_roic\<close>.\<close>

definition get_val :: "dataframe \<Rightarrow> string \<Rightarrow> column \<Rightarrow> error + fl" where
  "get_val df row col =
     (if row \<in> set (index df)
      then (case loc df row col of Inl e \<Rightarrow> Inl e
            | Inr v \<Rightarrow> Inr (if v = NaN then Fin 0 else v))
      else Inr (Fin 0))"

text \<open>\<open>x or y\<close> on two floats.\<close>

definition f_or :: "fl \<Rightarrow> fl \<Rightarrow> fl" where
  "f_or x y = (if ftruthy x then x else y)"

text \<open>\<open>a / b if b else 0\<close>.\<close>

definition div_or_zero :: "fl \<Rightarrow> fl \<Rightarrow> fl" where
  "div_or_zero a b = (if ftruthy b then fdiv a b else Fin 0)"

subsection \<open>Piotroski F-Score\<close>

text \<open>
  The function keeps a running \<open>score\<close> and a \<open>details\<close> dict (here a list of the
  entries in insertion order). Its whole body is in a \<open>try\<close>; the handler prints and
  falls through to the final \<open>return\<close>, so an exception ends the computation with the
  score and details reached so far. \<open>reading r st k\<close> is one access that may raise:
  it continues with the value read, or stops with the state \<open>st\<close>.
\<close>

record pio =
  pio_score :: nat
  pio_details :: "(string \<times> bool) list"

definition award :: "string \<Rightarrow> bool \<Rightarrow> pio \<Rightarrow> pio" where
  "award label ok st =
     \<lparr> pio_score = pio_score st + (if ok then 1 else 0),
       pio_details = pio_details st @ [(label, ok)] \<rparr>"

definition reading :: "error + fl \<Rightarrow> pio \<Rightarrow> (fl \<Rightarrow> pio) \<Rightarrow> pio" where
  "reading r st k = (case r of Inl e \<Rightarrow> st | Inr v \<Rightarrow> k v)"

text \<open>\<open>get_val(df, a, col) or get_val(df, b, col)\<close>: the second read only when the first is falsy.\<close>

definition get_val_or :: "dataframe \<Rightarrow> string \<Rightarrow> string \<Rightarrow> column \<Rightarrow> error + fl" where
  "get_val_or df a b col =
     (case get_val df a col of Inl e \<Rightarrow> Inl e
      | Inr v \<Rightarrow> if ftruthy v then Inr v else get_val df b col)"

definition get_piotroski_f_score :: "dataframe \<Rightarrow> dataframe \<Rightarrow> dataframe \<Rightarrow> pio" where
  "get_piotroski_f_score financials balance_sheet cash_flow =
    (let st0 = \<lparr> pio_score = 0, pio_details = [] \<rparr>
     in if df_empty financials \<or> df_empty balance_sheet \<or> df_empty cash_flow then st0
     else let cols = rev (sort (columns financials))
     in if length cols < 2 then st0
     else let t = cols ! 0; t_1 = cols ! 1 in
      reading (get_val financials ''Net Income'' t) st0 (\<lambda>net_income.
      reading (get_val balance_sheet ''Total Assets'' t) st0 (\<lambda>ta.
      let total_assets = f_or ta (Fin 1) in
      reading (get_val balance_sheet ''Total Assets'' t_1) st0 (\<lambda>tap.
      let total_assets_prev = f_or tap total_assets;
          avg_assets = fdiv (fadd total_assets total_assets_prev) (Fin 2);
          roa = div_or_zero net_income avg_assets;
          st1 = award ''Positive ROA'' (fgt roa (Fin 0)) st0 in
      reading (get_val cash_flow ''Total Cash From Operating Activities'' t) st1 (\<lambda>ocf.
      let st2 = award ''Positive OCF'' (fgt ocf (Fin 0)) st1 in
      reading (get_val financials ''Net Income'' t_1) st2 (\<lambda>net_income_prev.
      let roa_prev = div_or_zero net_income_prev total_assets_prev;
          st3 = award ''ROA Increasing'' (fgt roa roa_prev) st2;
          st4 = award ''Quality of Earnings (OCF > NI)'' (fgt ocf net_income) st3 in
      reading (get_val balance_sheet ''Long Term Debt'' t) st4 (\<lambda>lt_debt.
      reading (get_val balance_sheet ''Long Term Debt'' t_1) st4 (\<lambda>lt_debt_prev.
      let leverage = div_or_zero lt_debt avg_assets;
          leverage_prev = div_or_zero lt_debt_prev total_assets_prev;
          st5 = award ''Lower Leverage'' (fle leverage leverage_prev) st4 in
      reading (get_val balance_sheet ''Current Assets'' t) st5 (\<lambda>curr_assets.
      reading (get_val balance_sheet ''Current Liabilities'' t) st5 (\<lambda>curr_liab.
      let curr_ratio = div_or_zero curr_assets curr_liab in
      reading (get_val balance_sheet ''Current Assets'' t_1) st5 (\<lambda>curr_assets_prev.
      reading (get_val balance_sheet ''Current Liabilities'' t_1) st5 (\<lambda>curr_liab_prev.
      let curr_ratio_prev = div_or_zero curr_assets_prev curr_liab_prev;
          st6 = award ''Higher Liquidity (Current Ratio)'' (fgt curr_ratio curr_ratio_prev) st5 in
      reading (get_val_or balance_sheet ''Ordinary Shares Number'' ''Common Stock'' t) st6 (\<lambda>shares.
      reading (get_val_or balance_sheet ''Ordinary Shares Number'' ''Common Stock'' t_1) st6 (\<lambda>shares_prev.
      let st7 = award ''No Dilution'' (fle shares shares_prev) st6 in
      reading (get_val financials ''Total Revenue'' t) st7 (\<lambda>revenue.
      reading (get_val financials ''Gross Profit'' t) st7 (\<lambda>gross_profit.
      let gm = div_or_zero gross_profit revenue in
      reading (get_val financials ''Total Revenue'' t_1) st7 (\<lambda>revenue_prev.
      reading (get_val financials ''Gross Profit'' t_1) st7 (\<lambda>gross_profit_prev.
      let gm_prev = div_or_zero gross_profit_prev revenue_prev;
          st8 = award ''Higher Gross Margin'' (fgt gm gm_prev) st7;
          asset_turnover = div_or_zero revenue avg_assets;
          asset_turnover_prev = div_or_zero revenue_prev total_assets_prev
      in award ''Higher Asset Turnover'' (fgt asset_turnover asset_turnover_prev) st8
      ))))))))))))))))))"

subsection \<open>ROIC\<close>

text \<open>The body is in a \<open>try\<close> whose handler returns 0.\<close>

definition roic_body :: "dataframe \<Rightarrow> dataframe \<Rightarrow> error + fl" where
  "roic_body financials balance_sheet =
    (let cols = rev (sort (columns financials))
     in if cols = [] then Inr (Fin 0)
     else let t = cols ! 0 in
      case get_val financials ''Net Income'' t of Inl e \<Rightarrow> Inl e | Inr net_income \<Rightarrow>
      (case get_val_or balance_sheet ''Total Stockholder Equity'' ''Stockholders Equity'' t of
         Inl e \<Rightarrow> Inl e | Inr equity \<Rightarrow>
      (case get_val_or balance_sheet ''Long Term Debt'' ''Total Debt'' t of
         Inl e \<Rightarrow> Inl e | Inr debt \<Rightarrow>
      (let invested_capital = fadd equity debt
       in if feq invested_capital (Fin 0) then Inr (Fin 0)
          else Inr (fmul (fdiv net_income invested_capital) (Fin 100))))))"

definition get_roic :: "dataframe \<Rightarrow> dataframe \<Rightarrow> fl" where
  "get_roic financials balance_sheet =
     (case roic_body financials balance_sheet of Inl e \<Rightarrow> Fin 0 | Inr v \<Rightarrow> v)"

subsection \<open>Altman Z-Score\<close>

record altman =
  z_score :: fl
  zone :: string

text \<open>\<open>df.loc[row, t] if row in df.index else 0\<close>.\<close>

definition loc_or_zero :: "dataframe \<Rightarrow> string \<Rightarrow> column \<Rightarrow> error + fl" where
  "loc_or_zero df row col = (if row \<in> set (index df) then loc df row col else Inr (Fin 0))"

text \<open>
  The Z value the function computes before it classifies: \<open>Inr None\<close> stands for the
  early \<open>return\<close> on falsy total assets, \<open>Inl\<close> for an exception. The period \<open>t\<close> is
  the first column of the income statement as it comes (no sorting here).
\<close>

definition altman_z_value :: "dataframe \<Rightarrow> dataframe \<Rightarrow> fl \<Rightarrow> error + fl option" where
  "altman_z_value financials balance_sheet market_cap =
    (let t = columns financials ! 0 in
     case loc_or_zero balance_sheet ''Total Assets'' t of Inl e \<Rightarrow> Inl e | Inr total_assets \<Rightarrow>
     if \<not> ftruthy total_assets then Inr None else
     (case loc_or_zero balance_sheet ''Current Assets'' t of Inl e \<Rightarrow> Inl e | Inr curr_assets \<Rightarrow>
     (case loc_or_zero balance_sheet ''Current Liabilities'' t of Inl e \<Rightarrow> Inl e | Inr curr_liab \<Rightarrow>
     (case loc_or_zero balance_sheet ''Retained Earnings'' t of Inl e \<Rightarrow> Inl e | Inr retained_earnings \<Rightarrow>
     (case (if ''EBIT'' \<in> set (index financials) then loc financials ''EBIT'' t
            else if ''Interest Expense'' \<in> set (index financials)
            then (case loc financials ''Pretax Income'' t of Inl e \<Rightarrow> Inl e
                  | Inr pretax \<Rightarrow> (case loc financials ''Interest Expense'' t of Inl e \<Rightarrow> Inl e
                  | Inr interest \<Rightarrow> Inr (fadd pretax interest)))
            else loc financials ''Pretax Income'' t) of Inl e \<Rightarrow> Inl e | Inr ebit \<Rightarrow>
     (case (if ''Total Liabilities Net Minority Interest'' \<in> set (index balance_sheet)
            then loc balance_sheet ''Total Liabilities Net Minority Interest'' t
            else loc_or_zero balance_sheet ''Total Liabilities'' t) of Inl e \<Rightarrow> Inl e | Inr total_liab \<Rightarrow>
     (case loc_or_zero financials ''Total Revenue'' t of Inl e \<Rightarrow> Inl e | Inr sales \<Rightarrow>
     (let working_capital = fsub curr_assets curr_liab;
          A = fdiv working_capital total_assets;
          B = fdiv retained_earnings total_assets;
          C = fdiv ebit total_assets;
          D = div_or_zero market_cap total_liab;
          E = fdiv sales total_assets
      in Inr (Some (fadd (fadd (fadd (fadd (fmul (Fin 1.2) A) (fmul (Fin 1.4) B))
                    (fmul (Fin 3.3) C)) (fmul (Fin 0.6) D)) (fmul (Fin 1.0) E)))))))))))"

definition altman_zone :: "fl \<Rightarrow> string" where
  "altman_zone z =
     (if fgt z (Fin 2.99) then ''Safe (Green)''
      else if fgt z (Fin 1.81) then ''Grey Zone (Caution)''
      else ''Distress (Red)'')"

definition altman_unknown :: altman where
  "altman_unknown = \<lparr> z_score = Fin 0, zone = ''Unknown'' \<rparr>"

definition get_altman_z_score :: "dataframe \<Rightarrow> dataframe \<Rightarrow> fl \<Rightarrow> altman" where
  "get_altman_z_score financials balance_sheet market_cap =
     (if df_empty financials \<or> df_empty balance_sheet then altman_unknown
      else case altman_z_value financials balance_sheet market_cap of
             Inl e \<Rightarrow> altman_unknown
           | Inr None \<Rightarrow> altman_unknown
           | Inr (Some z) \<Rightarrow> \<lparr> z_score = fround2 z, zone = altman_zone z \<rparr>)"


section \<open>The Buffett criteria\<close>

text \<open>
  A criterion is a dict with a name, a lookup key, a rule text and the thresholds of its
  rule; \<open>criterion[k]\<close> raises \<open>KeyError\<close> for a threshold that is not there.
\<close>

record criterion =
  crit_name :: string
  crit_key :: string
  crit_criteria :: string
  thresholds :: "(string \<times> real) list"

definition thr :: "criterion \<Rightarrow> string \<Rightarrow> error + real" where
  "thr c k = (case map_of (thresholds c) k of None \<Rightarrow> Inl KeyError | Some t \<Rightarrow> Inr t)"

definition mk_criterion :: "string \<Rightarrow> string \<Rightarrow> string \<Rightarrow> (string \<times> real) list \<Rightarrow> criterion" where
  "mk_criterion n k txt ths =
     \<lparr> crit_name = n, crit_key = k, crit_criteria = txt, thresholds = ths \<rparr>"

text \<open>The sign \<open>\<ge>\<close> of one rule text, as its UTF-8 bytes.\<close>

definition ge_sign :: string where
  "ge_sign = [CHR 0xE2, CHR 0x89, CHR 0xA5]"

text \<open>
  \<open>_initialize_buffett_criteria\<close>. The entry \<open>'comparison': 'price_vs_book'\<close> of the
  fourth criterion is a string that no rule reads; it is left out of the thresholds.
\<close>

definition buffett_criteria :: "criterion list" where
  "buffett_criteria =
   [ mk_criterion ''Return on Equity (ROE)'' ''roe'' ''> 15% = Good, < 10% = Avoid''
       [(''good_threshold'', 15), (''bad_threshold'', 10)],
     mk_criterion ''Debt-to-Equity Ratio'' ''debt_to_equity''
       ''< 0.5 = Excellent, 0.5-1 = Okay, > 1 = Avoid''
       [(''excellent_threshold'', 0.5), (''avoid_threshold'', 1.0)],
     mk_criterion ''Current Ratio'' ''current_ratio'' ''> 1.5 = Healthy, < 1 = Risky''
       [(''good_threshold'', 1.5), (''bad_threshold'', 1.0)],
     mk_criterion ''Book Value Per Share'' ''book_value_check'' ''Stock Price < Book Value'' [],
     mk_criterion ''Price-to-Earnings (P/E) Ratio'' ''pe_ratio''
       ''10-15 = Fair, 15-25 = Okay, > 25 = Expensive''
       [(''fair_min'', 10), (''fair_max'', 15), (''okay_max'', 25)],
     mk_criterion ''Price-to-Book (P/B) Ratio'' ''pb_ratio'' ''< 1.5 = Undervalued''
       [(''good_threshold'', 1.5)],
     mk_criterion ''Intrinsic Value vs Market Price'' ''intrinsic_value_check''
       (''MoS '' @ ge_sign @ '' 20% (IV=Intrinsic Value via DCF, MoS=Margin of Safety)'')
       [(''discount_threshold'', 20)],
     mk_criterion ''Operating Profit Margin (OPM)'' ''operating_margin'' ''> 15% and stable''
       [(''good_threshold'', 15)],
     mk_criterion ''Revenue vs Profit Growth'' ''growth_alignment''
       ''Both positive (5-year CAGR or YoY)'' [(''alignment_threshold'', 0.8)],
     mk_criterion ''Return on Capital Employed (ROCE)'' ''roce'' ''> 15%''
       [(''good_threshold'', 15)],
     mk_criterion ''PEG Ratio'' ''peg_ratio'' ''< 1.0'' [(''good_threshold'', 1.0)],
     mk_criterion ''Earnings Growth'' ''earnings_growth'' ''> 8-10% CAGR''
       [(''good_threshold'', 8)],
     mk_criterion ''Consistent Earnings'' ''earnings_consistency''
       ''Net Income stable over 5-10 years'' [(''volatility_threshold'', 0.3)],
     mk_criterion ''Free Cash Flow'' ''free_cash_flow'' ''Positive & growing over 5 years''
       [(''growth_threshold'', 0)],
     mk_criterion ''Dividend History'' ''dividend_history''
       ''Dividend paid last 5 years (bonus)'' [(''years_threshold'', 3)] ]"

section \<open>Intrinsic value\<close>

definition projection_years :: nat where
  "projection_years = 10"

definition discount_rate :: real where
  "discount_rate = 0.10"

definition terminal_growth_rate :: real where
  "terminal_growth_rate = 0.025"

text \<open>\<open>_estimate_intrinsic_value_simple\<close>.\<close>

definition estimate_intrinsic_value_simple :: "stock_data \<Rightarrow> fl" where
  "estimate_intrinsic_value_simple sd =
     (let current_price = get_or sd ''current_price'' 0;
          eps = get_or sd ''eps'' 0
      in if fgt eps (Fin 0) then fmul eps (Fin 12) else fmul current_price (Fin 0.8))"

text \<open>The free cash flow the DCF starts from: the reported one, or an estimate.\<close>

definition estimated_fcf :: "stock_data \<Rightarrow> fl" where
  "estimated_fcf sd =
     (let current_price = get_or sd ''current_price'' 0;
          free_cash_flow = get_or sd ''free_cash_flow'' 0;
          shares_outstanding = get_or sd ''shares_outstanding'' 0
      in if fle free_cash_flow (Fin 0) then
           (let net_income = get_or sd ''net_income'' 0
            in if fgt net_income (Fin 0) then fmul net_income (Fin 0.8)
               else (let eps = get_or sd ''eps'' 0
                     in if fgt eps (Fin 0) \<and> fgt shares_outstanding (Fin 0)
                        then fmul (fmul eps shares_outstanding) (Fin 0.8)
                        else if fgt current_price (Fin 0)
                        then (if fgt shares_outstanding (Fin 0)
                              then fmul (fmul current_price shares_outstanding) (Fin 0.05)
                              else fmul current_price (Fin 0.05))
                        else free_cash_flow))
         else free_cash_flow)"

text \<open>
  One turn of the projection loop, for \<open>year\<close> from 1 to 10: the state is
  \<open>(projected_fcf, total_present_value)\<close>.
\<close>

definition dcf_year :: "fl \<Rightarrow> nat \<Rightarrow> fl \<times> fl \<Rightarrow> fl \<times> fl" where
  "dcf_year fcf_growth_rate year st =
     (let year_growth = fsub fcf_growth_rate
            (fmul (fsub fcf_growth_rate (Fin terminal_growth_rate))
                  (Fin (real year / real projection_years)));
          projected_fcf = fmul (fst st) (fadd (Fin 1) year_growth);
          discount_factor = Fin ((1 + discount_rate) ^ year);
          present_value = fdiv projected_fcf discount_factor
      in (projected_fcf, fadd (snd st) present_value))"

text \<open>
  The DCF proper, reached with positive free cash flow and share count: the per-share
  value before the sanity checks.
\<close>

definition dcf_per_share :: "fl \<Rightarrow> fl \<Rightarrow> fl \<Rightarrow> fl" where
  "dcf_per_share free_cash_flow shares_outstanding earnings_growth =
     (let fcf_growth_rate = fmin (fdiv earnings_growth (Fin 100)) (Fin 0.15);
          st = fold (dcf_year fcf_growth_rate) [1..<projection_years + 1]
                 (free_cash_flow, Fin 0);
          projected_fcf = fst st;
          total_present_value = snd st;
          terminal_fcf = fmul projected_fcf (fadd (Fin 1) (Fin terminal_growth_rate));
          terminal_value = fdiv terminal_fcf (Fin (discount_rate - terminal_growth_rate));
          terminal_pv = fdiv terminal_value (Fin ((1 + discount_rate) ^ projection_years));
          total_intrinsic_value = fadd total_present_value terminal_pv
      in fdiv total_intrinsic_value shares_outstanding)"

text \<open>The sanity checks on the per-share value, and the final rounding.\<close>

definition sanity_bounds :: "fl \<Rightarrow> fl \<Rightarrow> fl" where
  "sanity_bounds current_price intrinsic_value_per_share =
     (if fle intrinsic_value_per_share (Fin 0) then fmul current_price (Fin 0.8)
      else let price_ratio = (if fgt current_price (Fin 0)
                              then fdiv intrinsic_value_per_share current_price else Fin 1)
           in fround2 (if fgt price_ratio (Fin 5) then fmul current_price (Fin 5)
                       else if flt price_ratio (Fin 0.2) then fmul current_price (Fin 0.2)
                       else intrinsic_value_per_share))"

text \<open>
  \<open>_calculate_buffett_dcf_intrinsic_value\<close>. The body is in a \<open>try\<close> whose handler
  falls back to the simple estimate; with numeric entries nothing in the body raises
  (both divisions by a variable are behind a test that it is positive), so the handler
  has no branch here.
\<close>

definition calculate_buffett_dcf_intrinsic_value :: "stock_data \<Rightarrow> fl" where
  "calculate_buffett_dcf_intrinsic_value sd =
     (let current_price = get_or sd ''current_price'' 0;
          shares_outstanding = get_or sd ''shares_outstanding'' 0;
          free_cash_flow = estimated_fcf sd
      in if fle free_cash_flow (Fin 0) \<or> fle shares_outstanding (Fin 0)
         then estimate_intrinsic_value_simple sd
         else sanity_bounds current_price
                (dcf_per_share free_cash_flow shares_outstanding
                   (get_or sd ''earnings_growth'' 10)))"

section \<open>Derived metrics\<close>

text \<open>
  \<open>_calculate_derived_metrics\<close> returns a dict, here the list of its entries in
  insertion order.
\<close>

definition calculate_derived_metrics :: "stock_data \<Rightarrow> (string \<times> pynum) list" where
  "calculate_derived_metrics sd =
     (let total_debt = get_or sd ''total_debt'' 0;
          total_equity = get_or sd ''total_stockholder_equity'' 1;
          current_assets = get_or sd ''total_current_assets'' 0;
          current_liabilities = get_or sd ''total_current_liabilities'' 1;
          net_income = get_or sd ''net_income'' 0;
          operating_income = get_or sd ''operating_income'' 0;
          total_revenue = get_or sd ''total_revenue'' 1;
          total_capital = fadd total_equity total_debt;
          pe_ratio = get_or sd ''pe_ratio'' 0;
          earnings_growth = get_or sd ''earnings_growth'' 1;
          book_value = get_or sd ''book_value'' 0;
          current_price = get_or sd ''current_price'' 0;
          revenue_growth = get_or sd ''revenue_growth'' 0;
          profit_growth = get_or sd ''earnings_growth'' 0;
          free_cash_flow = get_or sd ''free_cash_flow'' 0;
          dividend_yield = get_or sd ''dividend_yield'' 0
      in [ (''debt_to_equity'', PFloat (if fgt total_equity (Fin 0)
                                        then fdiv total_debt total_equity else PInf)),
           (''current_ratio'', PFloat (if fgt current_liabilities (Fin 0)
                                       then fdiv current_assets current_liabilities else Fin 0)),
           (''roe'', PFloat (if fgt total_equity (Fin 0)
                             then fmul (fdiv net_income total_equity) (Fin 100) else Fin 0)),
           (''operating_margin'', PFloat (if fgt total_revenue (Fin 0)
                             then fmul (fdiv operating_income total_revenue) (Fin 100) else Fin 0)),
           (''roce'', PFloat (if fgt total_capital (Fin 0)
                             then fmul (fdiv operating_income total_capital) (Fin 100) else Fin 0)),
           (''peg_ratio'', PFloat (if fgt earnings_growth (Fin 0)
                                   then fdiv pe_ratio earnings_growth else PInf)),
           (''book_value_check'', PBool (flt current_price book_value)),
           (''intrinsic_value'', PFloat (calculate_buffett_dcf_intrinsic_value sd)),
           (''growth_alignment'', PFloat (if fgt revenue_growth (Fin 0) \<and> fgt profit_growth (Fin 0)
                                   then fdiv (fmin revenue_growth profit_growth)
                                             (fmax revenue_growth profit_growth)
                                   else Fin 0)),
           (''earnings_consistency'', PNone),
           (''free_cash_flow'', PBool (fgt free_cash_flow (Fin 0))),
           (''dividend_history'', PBool (fgt dividend_yield (Fin 0))),
           (''promoter_holding'', get_default sd ''promoter_holding'' 0),
           (''promoter_pledging'', PFloat (Fin 0)) ])"

text \<open>\<open>stock_data.update(d)\<close>: the entries of \<open>d\<close> are added, replacing entries of the same key.\<close>

definition update_scalars :: "stock_data \<Rightarrow> (string \<times> pynum) list \<Rightarrow> stock_data" where
  "update_scalars sd d = sd \<lparr> scalars := scalars sd ++ map_of d \<rparr>"

text \<open>The keys of the derived metrics.\<close>

definition derived_key_list :: "string list" where
  "derived_key_list =
     [''debt_to_equity'', ''current_ratio'', ''roe'', ''operating_margin'', ''roce'',
      ''peg_ratio'', ''book_value_check'', ''intrinsic_value'', ''growth_alignment'',
      ''earnings_consistency'', ''free_cash_flow'', ''dividend_history'',
      ''promoter_holding'', ''promoter_pledging'']"

section \<open>Evaluating a criterion\<close>

text \<open>
  The \<open>value\<close> entry of a result is a string built with a format specification. It is
  kept symbolic here: which text, or which numbers under which format. Numbers are plain
  Python numbers; the scalar types of numpy are not told apart from them.
\<close>

datatype period_text = CAGR pynum | YoY | Est

datatype trend_item = TrendItem fl nat string

datatype display =
    DText string
  | DRaw pynum
  | DFixed2 fl string
  | DBook string fl fl
  | DIntrinsic string fl fl string
  | DGrowth string fl string fl period_text
  | DTrend "trend_item list" string

record criterion_result =
  res_name :: string
  res_value :: display
  res_status :: string
  passed :: bool
  res_criteria :: string

type_synonym verdict = "bool \<times> string \<times> display"

text \<open>
  The currency symbols of the display strings, as UTF-8 bytes. \<open>currency + ' '\<close> is
  evaluated as the default of the lookup before the lookup, and raises \<open>TypeError\<close>
  when the currency is \<open>None\<close>.
\<close>

definition currency_symbols :: "(string \<times> string) list" where
  "currency_symbols =
     [ (''INR'', [CHR 0xE2, CHR 0x82, CHR 0xB9]), (''USD'', ''$''),
       (''EUR'', [CHR 0xE2, CHR 0x82, CHR 0xAC]), (''GBP'', [CHR 0xC2, CHR 0xA3]),
       (''JPY'', [CHR 0xC2, CHR 0xA5]), (''CNY'', [CHR 0xC2, CHR 0xA5]) ]"

definition get_currency :: "stock_data \<Rightarrow> pystr" where
  "get_currency sd = (case currency sd of None \<Rightarrow> SStr ''INR'' | Some c \<Rightarrow> c)"

definition curr_symbol_spaced :: "stock_data \<Rightarrow> error + string" where
  "curr_symbol_spaced sd =
     (case get_currency sd of SNone \<Rightarrow> Inl TypeError
      | SStr c \<Rightarrow> Inr (case map_of currency_symbols c of None \<Rightarrow> c @ '' '' | Some s \<Rightarrow> s))"

text \<open>The value looked up for the criterion: \<open>stock_data[key]\<close>, or the text \<open>N/A\<close>.\<close>

definition raw_display :: "pynum option \<Rightarrow> display" where
  "raw_display v = (case v of None \<Rightarrow> DText ''N/A'' | Some x \<Rightarrow> DRaw x)"

definition is_number_opt :: "pynum option \<Rightarrow> bool" where
  "is_number_opt v = (case v of None \<Rightarrow> False | Some x \<Rightarrow> is_number x)"

definition num_opt :: "pynum option \<Rightarrow> fl" where
  "num_opt v = (case v of None \<Rightarrow> Fin 0 | Some x \<Rightarrow> num_of x)"

definition eval_roe :: "criterion \<Rightarrow> pynum option \<Rightarrow> error + verdict" where
  "eval_roe c v =
     (if is_number_opt v then
        (case thr c ''good_threshold'' of Inl e \<Rightarrow> Inl e | Inr g \<Rightarrow>
           if fgt (num_opt v) (Fin g) then Inr (True, ''good'', DFixed2 (num_opt v) ''%'')
           else (case thr c ''bad_threshold'' of Inl e \<Rightarrow> Inl e | Inr b \<Rightarrow>
             Inr (False, if fgt (num_opt v) (Fin b) then ''caution'' else ''poor'',
                  DFixed2 (num_opt v) ''%'')))
      else Inr (False, ''poor'', raw_display v))"

definition eval_debt_to_equity :: "criterion \<Rightarrow> pynum option \<Rightarrow> error + verdict" where
  "eval_debt_to_equity c v =
     (if is_number_opt v then
        (case thr c ''excellent_threshold'' of Inl e \<Rightarrow> Inl e | Inr g \<Rightarrow>
           if flt (num_opt v) (Fin g) then Inr (True, ''good'', DFixed2 (num_opt v) [])
           else (case thr c ''avoid_threshold'' of Inl e \<Rightarrow> Inl e | Inr b \<Rightarrow>
             Inr (False, if fle (num_opt v) (Fin b) then ''caution'' else ''poor'',
                  DFixed2 (num_opt v) [])))
      else Inr (False, ''poor'', raw_display v))"

definition eval_current_ratio :: "criterion \<Rightarrow> pynum option \<Rightarrow> error + verdict" where
  "eval_current_ratio c v =
     (if is_number_opt v then
        (case thr c ''good_threshold'' of Inl e \<Rightarrow> Inl e | Inr g \<Rightarrow>
           if fgt (num_opt v) (Fin g) then Inr (True, ''good'', DFixed2 (num_opt v) [])
           else (case thr c ''bad_threshold'' of Inl e \<Rightarrow> Inl e | Inr b \<Rightarrow>
             Inr (False, if fge (num_opt v) (Fin b) then ''caution'' else ''poor'',
                  DFixed2 (num_opt v) [])))
      else Inr (False, ''poor'', raw_display v))"

definition eval_book_value_check :: "stock_data \<Rightarrow> error + verdict" where
  "eval_book_value_check sd =
     (let book_value = get_or sd ''book_value'' 0;
          current_price = get_or sd ''current_price'' 0
      in case curr_symbol_spaced sd of Inl e \<Rightarrow> Inl e | Inr curr_symbol \<Rightarrow>
         if fgt book_value (Fin 0)
         then Inr (flt current_price book_value,
                   if flt current_price book_value then ''good'' else ''poor'',
                   DBook curr_symbol book_value current_price)
         else Inr (False, ''poor'', DText ''N/A''))"

definition eval_pe_ratio :: "stock_data \<Rightarrow> criterion \<Rightarrow> error + verdict" where
  "eval_pe_ratio sd c =
     (let pe_value = get_default sd ''pe_ratio'' 0; pe = num_of pe_value
      in if is_number pe_value \<and> fgt pe (Fin 0) then
           (case thr c ''fair_min'' of Inl e \<Rightarrow> Inl e | Inr lo \<Rightarrow>
            (case (if fle (Fin lo) pe
                   then (case thr c ''fair_max'' of Inl e \<Rightarrow> Inl e
                         | Inr hi \<Rightarrow> Inr (fle pe (Fin hi)))
                   else Inr False) of Inl e \<Rightarrow> Inl e
             | Inr fair \<Rightarrow>
                 if fair then Inr (True, ''good'', DFixed2 pe [])
                 else (case thr c ''okay_max'' of Inl e \<Rightarrow> Inl e | Inr ok \<Rightarrow>
                   Inr (False, if fle pe (Fin ok) then ''caution'' else ''poor'',
                        DFixed2 pe []))))
         else Inr (False, ''poor'', DText ''N/A''))"

definition eval_pb_ratio :: "stock_data \<Rightarrow> criterion \<Rightarrow> error + verdict" where
  "eval_pb_ratio sd c =
     (let pb_value = get_default sd ''pb_ratio'' 0; pb = num_of pb_value
      in if is_number pb_value \<and> fgt pb (Fin 0) then
           (case thr c ''good_threshold'' of Inl e \<Rightarrow> Inl e | Inr g \<Rightarrow>
              if flt pb (Fin g) then Inr (True, ''good'', DFixed2 pb [])
              else Inr (False, if flt pb (Fin 2.0) then ''caution'' else ''poor'',
                        DFixed2 pb []))
         else Inr (False, ''poor'', DText ''N/A''))"

definition eval_intrinsic_value_check :: "stock_data \<Rightarrow> criterion \<Rightarrow> error + verdict" where
  "eval_intrinsic_value_check sd c =
     (let current_price = get_default sd ''current_price'' 0;
          intrinsic_value = get_default sd ''intrinsic_value'' 0
      in case curr_symbol_spaced sd of Inl e \<Rightarrow> Inl e | Inr curr_symbol \<Rightarrow>
         (case py_gt current_price (PFloat (Fin 0)) of Inl e \<Rightarrow> Inl e | Inr price_pos \<Rightarrow>
         (case (if price_pos then py_gt intrinsic_value (PFloat (Fin 0)) else Inr False) of
            Inl e \<Rightarrow> Inl e
          | Inr both_pos \<Rightarrow>
            if both_pos then
              (let mos = fmul (fsub (Fin 1)
                            (fdiv (num_of current_price) (num_of intrinsic_value))) (Fin 100);
                   shown = DIntrinsic curr_symbol (num_of intrinsic_value) mos
                             (if fge mos (Fin 0) then ''(Undervalued)'' else ''(Overvalued)'')
               in case thr c ''discount_threshold'' of Inl e \<Rightarrow> Inl e | Inr d \<Rightarrow>
                  if fge mos (Fin d) then Inr (True, ''good'', shown)
                  else Inr (False, if fgt mos (Fin 0) then ''caution'' else ''poor'', shown))
            else Inr (False, ''poor'', DText ''N/A''))))"

definition eval_margin :: "criterion \<Rightarrow> pynum option \<Rightarrow> error + verdict" where
  "eval_margin c v =
     (if is_number_opt v then
        (case thr c ''good_threshold'' of Inl e \<Rightarrow> Inl e | Inr g \<Rightarrow>
           Inr (fgt (num_opt v) (Fin g),
                if fgt (num_opt v) (Fin g) then ''good''
                else if fgt (num_opt v) (Fin (g * 0.7)) then ''caution'' else ''poor'',
                DFixed2 (num_opt v) ''%''))
      else Inr (False, ''poor'', raw_display v))"

text \<open>\<open>a or b\<close> on two dictionary values.\<close>

definition py_or :: "pynum \<Rightarrow> pynum \<Rightarrow> pynum" where
  "py_or a b = (if truthy a then a else b)"

definition eval_growth_alignment :: "stock_data \<Rightarrow> error + verdict" where
  "eval_growth_alignment sd =
     (let revenue_growth = get_or sd ''revenue_growth'' 0;
          profit_growth = get_or sd ''earnings_growth'' 0;
          years = py_or (get_default sd ''revenue_growth_years'' 0)
                        (get_default sd ''earnings_growth_years'' 0);
          both = (fgt revenue_growth (Fin 0) \<and> fgt profit_growth (Fin 0));
          alignment_ratio = fdiv (fmin revenue_growth profit_growth)
                                 (fmax revenue_growth profit_growth);
          status = (if both then (if flt alignment_ratio (Fin 0.5) then ''caution'' else ''good'')
                    else ''poor'');
          rev_sign = (if fge revenue_growth (Fin 0) then ''+'' else []);
          profit_sign = (if fge profit_growth (Fin 0) then ''+'' else [])
      in case as_fl years of Inl e \<Rightarrow> Inl e | Inr y \<Rightarrow>
         (let period = (if fgt y (Fin 1) then CAGR years
                        else if feq y (Fin 1) then YoY else Est)
          in if fgt y (Fin 0) \<or> fne revenue_growth (Fin 0) \<or> fne profit_growth (Fin 0)
             then Inr (both, status,
                       DGrowth rev_sign revenue_growth profit_sign profit_growth period)
             else Inr (both, ''caution'', DText ''N/A (Data not available)'')))"

text \<open>The scaling of one net income for display.\<close>

definition format_trend :: "pystr \<Rightarrow> fl \<Rightarrow> trend_item" where
  "format_trend cur val =
     (let abs_val = fabs val
      in if fge abs_val (Fin 1000000000) then TrendItem (fdiv val (Fin 1000000000)) 1 ''B''
         else if fge abs_val (Fin 10000000)
         then (if cur = SStr ''INR'' then TrendItem (fdiv val (Fin 10000000)) 0 ''Cr''
               else TrendItem (fdiv val (Fin 1000000)) 1 ''M'')
         else if fge abs_val (Fin 1000000) then TrendItem (fdiv val (Fin 1000000)) 1 ''M''
         else TrendItem (fdiv val (Fin 1000)) 0 ''K'')"

text \<open>\<open>xs[-5:]\<close>: the last five elements, or all of a shorter list.\<close>

definition last5 :: "'a list \<Rightarrow> 'a list" where
  "last5 xs = drop (length xs - 5) xs"

definition eval_earnings_consistency :: "stock_data \<Rightarrow> error + verdict" where
  "eval_earnings_consistency sd =
     (let income_history = (case net_income_history sd of None \<Rightarrow> [] | Some h \<Rightarrow> h)
      in if income_history \<noteq> [] \<and> length income_history \<ge> 2 then
           (let trend_values = rev income_history;
                all_positive = list_all (\<lambda>val. fgt val (Fin 0)) trend_values
            in Inr (all_positive, if all_positive then ''good'' else ''poor'',
                    DTrend (last5 (map (format_trend (get_currency sd)) trend_values))
                           (if all_positive then ''Consistent'' else ''Volatile'')))
         else Inr (False, ''poor'', DText ''N/A (Insufficient Data)''))"

definition eval_peg_ratio :: "criterion \<Rightarrow> pynum option \<Rightarrow> error + verdict" where
  "eval_peg_ratio c v =
     (if is_number_opt v \<and> fne (num_opt v) PInf then
        (case thr c ''good_threshold'' of Inl e \<Rightarrow> Inl e | Inr g \<Rightarrow>
           Inr (flt (num_opt v) (Fin g),
                if flt (num_opt v) (Fin g) then ''good''
                else if flt (num_opt v) (Fin 1.5) then ''caution'' else ''poor'',
                DFixed2 (num_opt v) []))
      else Inr (False, ''poor'', DText ''N/A''))"

definition eval_earnings_growth :: "stock_data \<Rightarrow> criterion \<Rightarrow> error + verdict" where
  "eval_earnings_growth sd c =
     (let earnings_growth = get_default sd ''earnings_growth'' 0; eg = num_of earnings_growth
      in if is_number earnings_growth then
           (case thr c ''good_threshold'' of Inl e \<Rightarrow> Inl e | Inr g \<Rightarrow>
              Inr (fgt eg (Fin g),
                   if fgt eg (Fin g) then ''good''
                   else if fgt eg (Fin 0) then ''caution'' else ''poor'',
                   DFixed2 eg ''%''))
         else Inr (False, ''poor'', DText ''N/A''))"

definition eval_free_cash_flow :: "pynum option \<Rightarrow> error + verdict" where
  "eval_free_cash_flow v =
     (case v of Some (PBool b) \<Rightarrow>
          Inr (b, if b then ''good'' else ''poor'', DText (if b then ''Positive'' else ''Negative''))
      | _ \<Rightarrow> Inr (False, ''poor'', raw_display v))"

definition eval_dividend_history :: "pynum option \<Rightarrow> error + verdict" where
  "eval_dividend_history v =
     (case v of Some (PBool b) \<Rightarrow>
          Inr (b, if b then ''good'' else ''caution'', DText (if b then ''Yes'' else ''No''))
      | _ \<Rightarrow> Inr (False, ''poor'', raw_display v))"

text \<open>
  \<open>_evaluate_criterion\<close>. The rule is chosen by the key, in the order of the source's
  \<open>if\<close>/\<open>elif\<close> chain (whose second branch for \<open>earnings_consistency\<close> can never be
  taken and is left out); a key of no branch keeps the initial verdict: not passed,
  status poor, the value as looked up.
\<close>

definition criterion_verdict :: "stock_data \<Rightarrow> criterion \<Rightarrow> error + verdict" where
  "criterion_verdict sd c =
     (let key = crit_key c; v = scalars sd key
      in if key = ''roe'' then eval_roe c v
         else if key = ''debt_to_equity'' then eval_debt_to_equity c v
         else if key = ''current_ratio'' then eval_current_ratio c v
         else if key = ''book_value_check'' then eval_book_value_check sd
         else if key = ''pe_ratio'' then eval_pe_ratio sd c
         else if key = ''pb_ratio'' then eval_pb_ratio sd c
         else if key = ''intrinsic_value_check'' then eval_intrinsic_value_check sd c
         else if key \<in> set [''operating_margin'', ''roce''] then eval_margin c v
         else if key = ''growth_alignment'' then eval_growth_alignment sd
         else if key = ''earnings_consistency'' then eval_earnings_consistency sd
         else if key = ''peg_ratio'' then eval_peg_ratio c v
         else if key = ''earnings_growth'' then eval_earnings_growth sd c
         else if key = ''free_cash_flow'' then eval_free_cash_flow v
         else if key = ''dividend_history'' then eval_dividend_history v
         else Inr (False, ''poor'', raw_display v))"

definition evaluate_criterion :: "stock_data \<Rightarrow> criterion \<Rightarrow> error + criterion_result" where
  "evaluate_criterion sd c =
     (case criterion_verdict sd c of
        Inl e \<Rightarrow> Inl e
      | Inr (ok, status, shown) \<Rightarrow>
          Inr \<lparr> res_name = crit_name c, res_value = shown, res_status = status,
                passed = ok, res_criteria = crit_criteria c \<rparr>)"

section \<open>The analysis\<close>

record 't analysis_result =
  total_score :: nat
  metrics :: "criterion_result list"
  recommendation_of :: recommendation
  analysis_timestamp :: 't
  piotroski :: pio
  roic :: fl
  altman_z :: altman

text \<open>
  The loop over the criteria, with the list of results and the score built so far; an
  exception of one evaluation ends it.
\<close>

fun evaluate_all ::
  "stock_data \<Rightarrow> criterion list \<Rightarrow> criterion_result list \<Rightarrow> nat \<Rightarrow>
   error + (criterion_result list \<times> nat)" where
  "evaluate_all sd [] metrics_results score = Inr (metrics_results, score)"
| "evaluate_all sd (c # cs) metrics_results score =
     (case evaluate_criterion sd c of Inl e \<Rightarrow> Inl e
      | Inr r \<Rightarrow> evaluate_all sd cs (metrics_results @ [r])
                  (if passed r then score + 1 else score))"

definition frame_or_empty :: "dataframe option \<Rightarrow> dataframe" where
  "frame_or_empty d = (case d of None \<Rightarrow> empty_frame | Some df \<Rightarrow> df)"

text \<open>
  \<open>analyze_stock\<close>, with the criteria table of the analyzer and the reading of the
  clock as parameters. The snapshot is a mutable dict that the function updates in
  place, so the snapshot after the call is returned beside the result (or the
  exception).
\<close>

definition analyze_stock ::
  "criterion list \<Rightarrow> 't \<Rightarrow> stock_data \<Rightarrow> stock_data \<times> (error + 't analysis_result)" where
  "analyze_stock criteria now sd0 =
     (let derived_metrics = calculate_derived_metrics sd0;
          sd = update_scalars sd0 derived_metrics
      in (sd,
          case evaluate_all sd criteria [] 0 of Inl e \<Rightarrow> Inl e
          | Inr (metrics_results, score) \<Rightarrow>
          (case generate_recommendation sd score of Inl e \<Rightarrow> Inl e
           | Inr rcm \<Rightarrow>
             (let raw_fin = frame_or_empty (raw_financials sd);
                  raw_bs = frame_or_empty (raw_balance_sheet sd);
                  raw_cf = frame_or_empty (raw_cash_flow sd);
                  market_cap = get_or sd ''market_cap'' 0
              in Inr \<lparr> total_score = score, metrics = metrics_results,
                       recommendation_of = rcm, analysis_timestamp = now,
                       piotroski = get_piotroski_f_score raw_fin raw_bs raw_cf,
                       roic = get_roic raw_fin raw_bs,
                       altman_z = get_altman_z_score raw_fin raw_bs market_cap \<rparr>))))"

text \<open>
  The entries that the analysis reads for an ordering comparison or a string
  concatenation without the \<open>or\<close> fallback: a snapshot is \<open>analysable\<close> when none of
  them holds \<open>None\<close>.
\<close>

definition analysable :: "stock_data \<Rightarrow> bool" where
  "analysable sd =
     (scalars sd ''current_price'' \<noteq> Some PNone \<and>
      scalars sd ''earnings_growth_years'' \<noteq> Some PNone \<and>
      currency sd \<noteq> Some SNone)"

section \<open>Reverse DCF\<close>









section \<open>Technical indicators\<close>

text \<open>
  A price history is the list of its daily bars, oldest first, with finite prices. A
  column computed from it is a list of floats of the same length. \<open>rolling n agg xs\<close>
  is pandas' \<open>xs.rolling(window=n)\<close> followed by an aggregation: no value (NaN) until
  \<open>n\<close> observations are there, then the aggregate of the last \<open>n\<close>.
\<close>

definition rolling :: "nat \<Rightarrow> ('a list \<Rightarrow> fl) \<Rightarrow> 'a list \<Rightarrow> fl list" where
  "rolling n agg xs =
     map (\<lambda>i. if i + 1 < n then NaN else agg (take n (drop (i + 1 - n) xs))) [0..<length xs]"

definition mean :: "real list \<Rightarrow> fl" where
  "mean w = Fin (sum_list w / real (length w))"

text \<open>
  The mean of a window of floats: NaN as soon as the window holds a NaN (fewer than
  \<open>n\<close> observations). An infinity in the window is summed by the IEEE rules (pandas'
  running sum may differ there; no infinity arises while each close lies between the
  low and the high of its bar).
\<close>

definition fmean :: "fl list \<Rightarrow> fl" where
  "fmean w = fdiv (fold (\<lambda>x s. fadd s x) w (Fin 0)) (Fin (real (length w)))"

text \<open>The sample standard deviation (\<open>ddof = 1\<close>) of a window.\<close>

definition sample_std :: "real list \<Rightarrow> fl" where
  "sample_std w =
     (let m = sum_list w / real (length w)
      in if length w < 2 then NaN
         else Fin (sqrt (sum_list (map (\<lambda>x. (x - m)\<^sup>2) w) / real (length w - 1))))"

definition window_min :: "real list \<Rightarrow> fl" where
  "window_min w = Fin (fold min w (hd w))"

definition window_max :: "real list \<Rightarrow> fl" where
  "window_max w = Fin (fold max w (hd w))"

text \<open>
  \<open>xs.ewm(span=n, adjust=False).mean()\<close>: seeded by the first value, then
  \<open>y' = (1 - \<alpha>) y + \<alpha> x\<close> with \<open>\<alpha> = 2 / (n + 1)\<close>.
\<close>

fun ewm_from :: "real \<Rightarrow> real \<Rightarrow> real list \<Rightarrow> real list" where
  "ewm_from \<alpha> y [] = []"
| "ewm_from \<alpha> y (x # xs) = ((1 - \<alpha>) * y + \<alpha> * x) # ewm_from \<alpha> ((1 - \<alpha>) * y + \<alpha> * x) xs"

definition ewm_mean :: "nat \<Rightarrow> real list \<Rightarrow> real list" where
  "ewm_mean n xs =
     (case xs of [] \<Rightarrow> [] | x # rest \<Rightarrow> x # ewm_from (2 / (real n + 1)) x rest)"

text \<open>
  \<open>_calculate_rsi\<close>. The first difference has no value, and \<open>where\<close> puts 0 wherever
  its condition is false, so gains and losses are finite.
\<close>

definition diffs :: "real list \<Rightarrow> real list" where
  "diffs xs = map (\<lambda>i. xs ! (i + 1) - xs ! i) [0..<length xs - 1]"

definition calculate_rsi :: "real list \<Rightarrow> fl list" where
  "calculate_rsi closes =
     (let delta = diffs closes;
          gain_in = (if closes = [] then [] else 0 # map (\<lambda>d. if d > 0 then d else 0) delta);
          loss_in = (if closes = [] then [] else 0 # map (\<lambda>d. - (if d < 0 then d else 0)) delta);
          gain = rolling 14 mean gain_in;
          loss = rolling 14 mean loss_in
      in map (\<lambda>(g, l). fsub (Fin 100) (fdiv (Fin 100) (fadd (Fin 1) (fdiv g l))))
             (zip gain loss))"

text \<open>\<open>_calculate_macd\<close>: the MACD line and its signal line.\<close>

definition macd_line :: "real list \<Rightarrow> real list" where
  "macd_line closes = map (\<lambda>(a, b). a - b) (zip (ewm_mean 12 closes) (ewm_mean 26 closes))"

definition signal_line :: "real list \<Rightarrow> real list" where
  "signal_line closes = ewm_mean 9 (macd_line closes)"

text \<open>\<open>_calculate_bollinger_bands\<close>.\<close>

definition bb_upper_series :: "real list \<Rightarrow> fl list" where
  "bb_upper_series closes =
     map (\<lambda>(m, sd). fadd m (fmul sd (Fin 2)))
         (zip (rolling 20 mean closes) (rolling 20 sample_std closes))"

definition bb_lower_series :: "real list \<Rightarrow> fl list" where
  "bb_lower_series closes =
     map (\<lambda>(m, sd). fsub m (fmul sd (Fin 2)))
         (zip (rolling 20 mean closes) (rolling 20 sample_std closes))"

text \<open>
  \<open>_calculate_stochastic\<close>: \<open>%K = 100 * ((Close - low_min) / (high_max - low_min))\<close> on
  whole columns, as pandas divides: without a test of the divisor and without raising.
\<close>

definition stoch_k_series :: "bar list \<Rightarrow> fl list" where
  "stoch_k_series bars =
     (let low_min = rolling 14 window_min (map bar_low bars);
          high_max = rolling 14 window_max (map bar_high bars)
      in map (\<lambda>(c, (lo, hi)). fmul (Fin 100) (fdiv (fsub (Fin c) lo) (fsub hi lo)))
             (zip (map bar_close bars) (zip low_min high_max)))"

definition stoch_d_series :: "bar list \<Rightarrow> fl list" where
  "stoch_d_series bars = rolling 3 fmean (stoch_k_series bars)"

record technical_snapshot =
  ts_rsi :: fl
  ts_sma_50 :: fl
  ts_sma_200 :: fl
  ts_macd :: fl
  ts_macd_signal :: fl
  ts_stoch_k :: fl
  ts_stoch_d :: fl
  ts_ema_9 :: fl
  ts_ema_21 :: fl
  ts_bb_upper :: fl
  ts_bb_lower :: fl
  technical_score :: nat
  verdict :: string
  action :: string
  signals :: "string list"
  trend :: string

text \<open>
  \<open>_get_fallback_indicators\<close>: the products of the price raise \<open>TypeError\<close> when the
  price is \<open>None\<close>.
\<close>

definition get_fallback_indicators :: "pynum \<Rightarrow> error + technical_snapshot" where
  "get_fallback_indicators current_price =
     (case as_fl current_price of Inl e \<Rightarrow> Inl e
      | Inr p \<Rightarrow> Inr \<lparr> ts_rsi = Fin 50, ts_sma_50 = p, ts_sma_200 = fmul p (Fin 0.95),
          ts_macd = Fin 0, ts_macd_signal = Fin 0, ts_stoch_k = Fin 50, ts_stoch_d = Fin 50,
          ts_ema_9 = p, ts_ema_21 = p, ts_bb_upper = fmul p (Fin 1.05),
          ts_bb_lower = fmul p (Fin 0.95), technical_score = 50,
          verdict = ''Data Not Available'', action = ''HOLD'',
          signals = [''Insufficient Data''], trend = ''Data Not Available'' \<rparr>)"

text \<open>
  The score and the verdict from the latest value of each column and the price. The
  state of the scoring is \<open>(tech_score, signals)\<close>; \<open>points n sigs\<close> adds \<open>n\<close> to the
  score and appends the signals \<open>sigs\<close>.
\<close>

definition points :: "nat \<Rightarrow> string list \<Rightarrow> nat \<times> string list \<Rightarrow> nat \<times> string list" where
  "points n sigs st = (fst st + n, snd st @ sigs)"

definition score_indicators :: "fl \<Rightarrow> bar list \<Rightarrow> technical_snapshot" where
  "score_indicators current_price hist_data =
     (let closes = map bar_close hist_data;
          sma_50 = last (rolling 50 mean closes);
          sma_200 = last (rolling 200 mean closes);
          rsi = last (calculate_rsi closes);
          macd = Fin (last (macd_line closes));
          signal = Fin (last (signal_line closes));
          stoch_k = last (stoch_k_series hist_data);
          stoch_d = last (stoch_d_series hist_data);
          ema_9 = Fin (last (ewm_mean 9 closes));
          ema_21 = Fin (last (ewm_mean 21 closes));
          bb_upper = last (bb_upper_series closes);
          bb_lower = last (bb_lower_series closes);
          s1 = (if fgt current_price sma_200
                then points 15 [''Price > SMA200 (Long Term Bullish)''] else id) (0, []);
          s2 = (if fgt current_price sma_50 then points 5 [] else id) s1;
          s3 = (if fgt ema_9 ema_21
                then points 20 [''EMA 9 > EMA 21 (Short Term Bullish)'']
                else points 0 [''EMA 9 < EMA 21 (Short Term Bearish)'']) s2;
          s4 = (if fle (Fin 40) rsi \<and> fle rsi (Fin 70) then points 15 []
                else if fgt rsi (Fin 70) then points 5 [''RSI Overbought (>70)'']
                else if flt rsi (Fin 30)
                then points 10 [''RSI Oversold (<30) - Potential Bounce'']
                else id) s3;
          s5 = (if fgt macd signal then points 15 [''MACD Bullish Crossover''] else id) s4;
          s6 = (if flt stoch_k (Fin 20) \<and> fgt stoch_k stoch_d
                then points 15 [''Stochastic Oversold Cross (Buy)'']
                else if fgt stoch_k (Fin 80) \<and> flt stoch_k stoch_d then id
                else if fgt stoch_k stoch_d then points 10 []
                else id) s5;
          s7 = (if fgt current_price bb_lower \<and> flt current_price bb_upper
                then points 15 []
                else if fge current_price bb_upper
                then points 10 [''Price hitting Upper BB (Momentum)'']
                else if fle current_price bb_lower
                then points 5 [''Price at Lower BB (Support)'']
                else id) s6;
          tech_score = fst s7;
          v = (if tech_score \<ge> 80 then (''Strong Bullish'', ''BUY'')
               else if tech_score \<ge> 60 then (''Bullish'', ''ACCUMULATE'')
               else if tech_score \<ge> 40 then (''Neutral'', ''HOLD'')
               else (''Bearish'', ''AVOID''))
      in \<lparr> ts_rsi = fround2 rsi, ts_sma_50 = fround2 sma_50, ts_sma_200 = fround2 sma_200,
           ts_macd = fround2 macd, ts_macd_signal = fround2 signal,
           ts_stoch_k = fround2 stoch_k, ts_stoch_d = fround2 stoch_d,
           ts_ema_9 = fround2 ema_9, ts_ema_21 = fround2 ema_21,
           ts_bb_upper = fround2 bb_upper, ts_bb_lower = fround2 bb_lower,
           technical_score = tech_score, verdict = fst v, action = snd v,
           signals = snd s7, trend = fst v \<rparr>)"

text \<open>
  The price history that is analysed: the one of the snapshot when it is there, not
  \<open>None\<close> and not empty, else the one fetched for the symbol. The fetch is the
  program's only contact with the outside; it is a parameter here, and may raise.
\<close>

definition history_to_analyse ::
  "(string \<Rightarrow> error + bar list) \<Rightarrow> string \<Rightarrow> stock_data \<Rightarrow> error + bar list" where
  "history_to_analyse fetch ticker sd =
     (case history sd of
        Some (Some bars) \<Rightarrow> if bars \<noteq> [] then Inr bars else fetch ticker
      | _ \<Rightarrow> fetch ticker)"

text \<open>
  \<open>get_technical_indicators\<close>. Without a symbol the fallback is returned at once. The
  rest is in a \<open>try\<close> whose handler returns the fallback: an empty history returns
  the fallback, any other is scored, the first comparison of the price raising
  \<open>TypeError\<close> when the price is \<open>None\<close>.
\<close>

definition get_technical_indicators ::
  "(string \<Rightarrow> error + bar list) \<Rightarrow> stock_data \<Rightarrow> error + technical_snapshot" where
  "get_technical_indicators fetch sd =
     (let current_price = get_default sd ''current_price'' 0
      in case symbol sd of
           Some (SStr (c # cs)) \<Rightarrow>
             (case history_to_analyse fetch (c # cs) sd of
                Inl e \<Rightarrow> get_fallback_indicators current_price
              | Inr hist_data \<Rightarrow>
                  if hist_data = [] then get_fallback_indicators current_price
                  else (case as_fl current_price of
                          Inl e \<Rightarrow> get_fallback_indicators current_price
                        | Inr p \<Rightarrow> Inr (score_indicators p hist_data)))
         | _ \<Rightarrow> get_fallback_indicators current_price)"

text \<open>
  The history that \<open>get_technical_indicators\<close> goes on to score, if any: none without
  a symbol or when the fetch raises.
\<close>

definition analysed_history :: "(string \<Rightarrow> error + bar list) \<Rightarrow> stock_data \<Rightarrow> bar list option" where
  "analysed_history fetch sd =
     (case symbol sd of
        Some (SStr (c # cs)) \<Rightarrow>
          (case history_to_analyse fetch (c # cs) sd of Inl e \<Rightarrow> None | Inr h \<Rightarrow> Some h)
      | _ \<Rightarrow> None)"

section \<open>Magnitudes and margins\<close>

text \<open>
  The program computes in binary floating point: every operation rounds its result in
  about the sixteenth significant digit, and a result beyond about \<open>10^308\<close> is an
  infinity. The properties proved below are worded so that this rounding cannot change
  them. The numbers they start from are of moderate size (zero, or between \<open>10^-100\<close>
  and \<open>10^100\<close> in absolute value), so that no operation overflows or underflows; a
  computed product is located up to a relative error of \<open>10^-9\<close>; and where two
  computed ratios are compared, the one is assumed to exceed the other by a clear
  margin, a relative \<open>10^-9\<close> of their sizes.
\<close>

definition moderate :: "real \<Rightarrow> bool" where
  "moderate x = (x = 0 \<or> (1 / 10 ^ 100 \<le> \<bar>x\<bar> \<and> \<bar>x\<bar> \<le> 10 ^ 100))"


definition clearly_gt :: "real \<Rightarrow> real \<Rightarrow> bool" where
  "clearly_gt x y = (x - y > (\<bar>x\<bar> + \<bar>y\<bar>) / 10 ^ 9)"

text \<open>\<open>a / b if b else 0\<close> on two finite numbers.\<close>

definition ratio_or_zero :: "real \<Rightarrow> real \<Rightarrow> real" where
  "ratio_or_zero a b = (if b = 0 then 0 else a / b)"

section \<open>Two years of statements\<close>

text \<open>
  The seventeen numbers that \<open>get_piotroski_f_score\<close> reads from two annual
  statements: \<open>reads_two_years\<close> says that no table is empty, that the income statement
  has two periods, and that the function's seventeen reads, at its two newest periods,
  return these numbers. A read is one call of the helper \<open>get_val\<close> (which gives 0 for
  a row that is absent and for a cell that is NaN), for the share count with its
  fallback from \<open>Ordinary Shares Number\<close> to \<open>Common Stock\<close>.
\<close>

record two_years =
  y_net_income :: real
  y_net_income_prev :: real
  y_total_assets :: real
  y_total_assets_prev :: real
  y_ocf :: real
  y_lt_debt :: real
  y_lt_debt_prev :: real
  y_curr_assets :: real
  y_curr_liab :: real
  y_curr_assets_prev :: real
  y_curr_liab_prev :: real
  y_shares :: real
  y_shares_prev :: real
  y_revenue :: real
  y_gross_profit :: real
  y_revenue_prev :: real
  y_gross_profit_prev :: real

definition reads_two_years ::
  "dataframe \<Rightarrow> dataframe \<Rightarrow> dataframe \<Rightarrow> two_years \<Rightarrow> bool" where
  "reads_two_years financials balance_sheet cash_flow y =
     (\<not> df_empty financials \<and> \<not> df_empty balance_sheet \<and> \<not> df_empty cash_flow \<and>
      length (columns financials) \<ge> 2 \<and>
      (let cols = rev (sort (columns financials)); t = cols ! 0; t_1 = cols ! 1
       in get_val financials ''Net Income'' t = Inr (Fin (y_net_income y)) \<and>
          get_val financials ''Net Income'' t_1 = Inr (Fin (y_net_income_prev y)) \<and>
          get_val balance_sheet ''Total Assets'' t = Inr (Fin (y_total_assets y)) \<and>
          get_val balance_sheet ''Total Assets'' t_1 = Inr (Fin (y_total_assets_prev y)) \<and>
          get_val cash_flow ''Total Cash From Operating Activities'' t = Inr (Fin (y_ocf y)) \<and>
          get_val balance_sheet ''Long Term Debt'' t = Inr (Fin (y_lt_debt y)) \<and>
          get_val balance_sheet ''Long Term Debt'' t_1 = Inr (Fin (y_lt_debt_prev y)) \<and>
          get_val balance_sheet ''Current Assets'' t = Inr (Fin (y_curr_assets y)) \<and>
          get_val balance_sheet ''Current Liabilities'' t = Inr (Fin (y_curr_liab y)) \<and>
          get_val balance_sheet ''Current Assets'' t_1 = Inr (Fin (y_curr_assets_prev y)) \<and>
          get_val balance_sheet ''Current Liabilities'' t_1 = Inr (Fin (y_curr_liab_prev y)) \<and>
          get_val_or balance_sheet ''Ordinary Shares Number'' ''Common Stock'' t =
            Inr (Fin (y_shares y)) \<and>
          get_val_or balance_sheet ''Ordinary Shares Number'' ''Common Stock'' t_1 =
            Inr (Fin (y_shares_prev y)) \<and>
          get_val financials ''Total Revenue'' t = Inr (Fin (y_revenue y)) \<and>
          get_val financials ''Gross Profit'' t = Inr (Fin (y_gross_profit y)) \<and>
          get_val financials ''Total Revenue'' t_1 = Inr (Fin (y_revenue_prev y)) \<and>
          get_val financials ''Gross Profit'' t_1 = Inr (Fin (y_gross_profit_prev y))))"

definition moderate_years :: "two_years \<Rightarrow> bool" where
  "moderate_years y =
     list_all moderate
       [y_net_income y, y_net_income_prev y, y_total_assets y, y_total_assets_prev y,
        y_ocf y, y_lt_debt y, y_lt_debt_prev y, y_curr_assets y, y_curr_liab y,
        y_curr_assets_prev y, y_curr_liab_prev y, y_shares y, y_shares_prev y,
        y_revenue y, y_gross_profit y, y_revenue_prev y, y_gross_profit_prev y]"

text \<open>
  The nine tests with the measures of the function: return on assets, leverage and asset
  turnover of the current year are taken over the average of the two years' total
  assets, those of the prior year over the prior year's total assets; a ratio with a
  zero denominator counts as 0. Total assets are positive in both years. Where two
  ratios are compared the margin is clear; leverage also passes without a margin when
  the current debt is not positive and the prior debt not negative.
\<close>

definition nine_tests :: "two_years \<Rightarrow> bool" where
  "nine_tests y =
     (let avg_assets = (y_total_assets y + y_total_assets_prev y) / 2
      in y_total_assets y > 0 \<and> y_total_assets_prev y > 0 \<and>
         y_net_income y > 0 \<and>
         y_ocf y > 0 \<and>
         clearly_gt (y_net_income y / avg_assets)
                    (y_net_income_prev y / y_total_assets_prev y) \<and>
         y_ocf y > y_net_income y \<and>
         (y_lt_debt y \<le> 0 \<and> 0 \<le> y_lt_debt_prev y \<or>
          clearly_gt (y_lt_debt_prev y / y_total_assets_prev y) (y_lt_debt y / avg_assets)) \<and>
         clearly_gt (ratio_or_zero (y_curr_assets y) (y_curr_liab y))
                    (ratio_or_zero (y_curr_assets_prev y) (y_curr_liab_prev y)) \<and>
         y_shares y \<le> y_shares_prev y \<and>
         clearly_gt (ratio_or_zero (y_gross_profit y) (y_revenue y))
                    (ratio_or_zero (y_gross_profit_prev y) (y_revenue_prev y)) \<and>
         clearly_gt (y_revenue y / avg_assets) (y_revenue_prev y / y_total_assets_prev y))"

text \<open>
  The nine conditions in the words of the specification, not taken from the code:
  return on assets, the ratio of long-term debt to assets and asset turnover are each
  year's figure over that year's own total assets.
\<close>

definition nine_conditions_year_end :: "two_years \<Rightarrow> bool" where
  "nine_conditions_year_end y =
     (y_net_income y / y_total_assets y > 0 \<and>
      y_ocf y > 0 \<and>
      y_net_income y / y_total_assets y > y_net_income_prev y / y_total_assets_prev y \<and>
      y_ocf y > y_net_income y \<and>
      y_lt_debt y / y_total_assets y \<le> y_lt_debt_prev y / y_total_assets_prev y \<and>
      y_curr_assets y / y_curr_liab y > y_curr_assets_prev y / y_curr_liab_prev y \<and>
      y_shares y \<le> y_shares_prev y \<and>
      y_gross_profit y / y_revenue y > y_gross_profit_prev y / y_revenue_prev y \<and>
      y_revenue y / y_total_assets y > y_revenue_prev y / y_total_assets_prev y)"

section \<open>Concrete snapshots\<close>

text \<open>The scenario of the specification: price 100, intrinsic value 150.\<close>

definition scenario_snapshot :: stock_data where
  "scenario_snapshot =
     \<lparr> scalars = [''current_price'' \<mapsto> PFloat (Fin 100), ''intrinsic_value'' \<mapsto> PFloat (Fin 150)],
       symbol = None, currency = None, currency_symbol = None, net_income_history = None,
       raw_financials = None, raw_balance_sheet = None, raw_cash_flow = None, history = None \<rparr>"

text \<open>
  A snapshot whose price is \<open>None\<close>, as the fetcher builds it for a ticker with an
  empty price history and a \<open>currentPrice\<close> of \<open>None\<close>.
\<close>

definition none_price_snapshot :: stock_data where
  "none_price_snapshot =
     \<lparr> scalars = [''current_price'' \<mapsto> PNone],
       symbol = Some (SStr ''TCS.NS''), currency = None, currency_symbol = None,
       net_income_history = None, raw_financials = None, raw_balance_sheet = None,
       raw_cash_flow = None, history = None \<rparr>"

text \<open>
  A snapshot on the DCF path whose price is not a whole number of cents: price 10.0012,
  free cash flow 1000000, one share.
\<close>

definition rounding_snapshot :: stock_data where
  "rounding_snapshot =
     \<lparr> scalars = [''current_price'' \<mapsto> PFloat (Fin 10.0012),
                  ''free_cash_flow'' \<mapsto> PFloat (Fin 1000000),
                  ''shares_outstanding'' \<mapsto> PFloat (Fin 1)],
       symbol = None, currency = None, currency_symbol = None, net_income_history = None,
       raw_financials = None, raw_balance_sheet = None, raw_cash_flow = None, history = None \<rparr>"


text \<open>Two years of statements that pass all nine tests (ROA rises from 4% to 6%).\<close>

definition table_frame :: "column list \<Rightarrow> string list \<Rightarrow> ((string \<times> column) \<times> real) list \<Rightarrow> dataframe" where
  "table_frame cols rows tbl =
     \<lparr> columns = cols, index = rows,
       cell = (\<lambda>r c. case map_of tbl (r, c) of None \<Rightarrow> NaN | Some x \<Rightarrow> Fin x) \<rparr>"

definition example_financials :: dataframe where
  "example_financials = table_frame [2023, 2022]
     [''Total Revenue'', ''Gross Profit'', ''Net Income'', ''EBIT'']
     [((''Total Revenue'', 2023), 1100), ((''Total Revenue'', 2022), 1000),
      ((''Gross Profit'', 2023), 385), ((''Gross Profit'', 2022), 300),
      ((''Net Income'', 2023), 60), ((''Net Income'', 2022), 40),
      ((''EBIT'', 2023), 100), ((''EBIT'', 2022), 70)]"

definition example_balance_sheet :: dataframe where
  "example_balance_sheet = table_frame [2023, 2022]
     [''Total Assets'', ''Long Term Debt'', ''Current Assets'', ''Current Liabilities'',
      ''Ordinary Shares Number'', ''Retained Earnings'',
      ''Total Liabilities Net Minority Interest'']
     [((''Total Assets'', 2023), 1000), ((''Total Assets'', 2022), 1000),
      ((''Long Term Debt'', 2023), 250), ((''Long Term Debt'', 2022), 300),
      ((''Current Assets'', 2023), 450), ((''Current Assets'', 2022), 400),
      ((''Current Liabilities'', 2023), 250), ((''Current Liabilities'', 2022), 250),
      ((''Ordinary Shares Number'', 2023), 100), ((''Ordinary Shares Number'', 2022), 100),
      ((''Retained Earnings'', 2023), 500), ((''Retained Earnings'', 2022), 450),
      ((''Total Liabilities Net Minority Interest'', 2023), 600),
      ((''Total Liabilities Net Minority Interest'', 2022), 620)]"

definition example_cash_flow :: dataframe where
  "example_cash_flow = table_frame [2023, 2022] [''Total Cash From Operating Activities'']
     [((''Total Cash From Operating Activities'', 2023), 80),
      ((''Total Cash From Operating Activities'', 2022), 50)]"

definition example_years :: two_years where
  "example_years =
     \<lparr> y_net_income = 60, y_net_income_prev = 40, y_total_assets = 1000,
       y_total_assets_prev = 1000, y_ocf = 80, y_lt_debt = 250, y_lt_debt_prev = 300,
       y_curr_assets = 450, y_curr_liab = 250, y_curr_assets_prev = 400,
       y_curr_liab_prev = 250, y_shares = 100, y_shares_prev = 100, y_revenue = 1100,
       y_gross_profit = 385, y_revenue_prev = 1000, y_gross_profit_prev = 300 \<rparr>"

text \<open>
  Two years of a company whose assets double: return on assets rises from 4% to 6%,
  long-term debt falls from 40% to 39% of total assets, and every other figure
  improves. The cash-flow statement is the one above.
\<close>

definition growing_financials :: dataframe where
  "growing_financials = table_frame [2023, 2022]
     [''Total Revenue'', ''Gross Profit'', ''Net Income'']
     [((''Total Revenue'', 2023), 1100), ((''Total Revenue'', 2022), 500),
      ((''Gross Profit'', 2023), 385), ((''Gross Profit'', 2022), 150),
      ((''Net Income'', 2023), 60), ((''Net Income'', 2022), 20)]"

definition growing_balance_sheet :: dataframe where
  "growing_balance_sheet = table_frame [2023, 2022]
     [''Total Assets'', ''Long Term Debt'', ''Current Assets'', ''Current Liabilities'',
      ''Ordinary Shares Number'']
     [((''Total Assets'', 2023), 1000), ((''Total Assets'', 2022), 500),
      ((''Long Term Debt'', 2023), 390), ((''Long Term Debt'', 2022), 200),
      ((''Current Assets'', 2023), 450), ((''Current Assets'', 2022), 400),
      ((''Current Liabilities'', 2023), 250), ((''Current Liabilities'', 2022), 250),
      ((''Ordinary Shares Number'', 2023), 100), ((''Ordinary Shares Number'', 2022), 100)]"

definition growing_years :: two_years where
  "growing_years =
     \<lparr> y_net_income = 60, y_net_income_prev = 20, y_total_assets = 1000,
       y_total_assets_prev = 500, y_ocf = 80, y_lt_debt = 390, y_lt_debt_prev = 200,
       y_curr_assets = 450, y_curr_liab = 250, y_curr_assets_prev = 400,
       y_curr_liab_prev = 250, y_shares = 100, y_shares_prev = 100, y_revenue = 1100,
       y_gross_profit = 385, y_revenue_prev = 500, y_gross_profit_prev = 150 \<rparr>"

text \<open>
  Snapshots for the technical indicators: a one-row history, an empty history with a
  fetch that fails, and fourteen identical bars (a flat range).
\<close>

definition no_fetch :: "string \<Rightarrow> error + bar list" where
  "no_fetch ticker = Inl FetchError"

definition one_bar :: bar where
  "one_bar = \<lparr> bar_open = 100, bar_high = 101, bar_low = 99, bar_close = 100 \<rparr>"

definition single_row_snapshot :: stock_data where
  "single_row_snapshot =
     \<lparr> scalars = [''current_price'' \<mapsto> PFloat (Fin 100)],
       symbol = Some (SStr ''TCS.NS''), currency = None, currency_symbol = None,
       net_income_history = None, raw_financials = None, raw_balance_sheet = None,
       raw_cash_flow = None, history = Some (Some [one_bar]) \<rparr>"

definition empty_history_snapshot :: stock_data where
  "empty_history_snapshot =
     \<lparr> scalars = [''current_price'' \<mapsto> PFloat (Fin 100)],
       symbol = Some (SStr ''TCS.NS''), currency = None, currency_symbol = None,
       net_income_history = None, raw_financials = None, raw_balance_sheet = None,
       raw_cash_flow = None, history = Some (Some []) \<rparr>"

definition flat_bar :: bar where
  "flat_bar = \<lparr> bar_open = 100, bar_high = 100, bar_low = 100, bar_close = 100 \<rparr>"

definition flat_history :: "bar list" where
  "flat_history = replicate 14 flat_bar"

section \<open>Verified properties\<close>

subsection \<open>The snapshot after the update\<close>

lemma get_default_update:
  "get_default (update_scalars sd d) k x =
     (case map_of d k of None \<Rightarrow> get_default sd k x | Some v \<Rightarrow> v)"
  by (simp add: get_default_def update_scalars_def map_add_def split: option.splits)

lemma derived_keys:
  "map fst (calculate_derived_metrics sd) = derived_key_list"
  by (simp add: calculate_derived_metrics_def derived_key_list_def Let_def)

lemma derived_keys_set: "fst ` set (calculate_derived_metrics sd) = set derived_key_list"
  unfolding derived_keys [of sd, symmetric] by simp

lemma map_of_derived_None:
  "k \<notin> set derived_key_list \<Longrightarrow> map_of (calculate_derived_metrics sd) k = None"
  by (simp add: map_of_eq_None_iff derived_keys_set)

lemma analyzed_other_key:
  "k \<notin> set derived_key_list \<Longrightarrow>
     scalars (update_scalars sd (calculate_derived_metrics sd)) k = scalars sd k"
  by (simp add: update_scalars_def map_add_def map_of_derived_None)

lemma analyzed_intrinsic_value:
  "\<exists>a. scalars (update_scalars sd (calculate_derived_metrics sd)) ''intrinsic_value'' =
         Some (PFloat a)"
  by (simp add: update_scalars_def calculate_derived_metrics_def Let_def)

subsection \<open>The criteria never raise on an analysable snapshot\<close>

lemma thr_table:
  "thr (mk_criterion n k txt ths) x =
     (case map_of ths x of None \<Rightarrow> Inl KeyError | Some t \<Rightarrow> Inr t)"
  by (simp add: thr_def mk_criterion_def)

lemma crit_key_mk: "crit_key (mk_criterion n k txt ths) = k"
  by (simp add: mk_criterion_def)

lemma eval_roe_total:
  "\<not> isl (thr c ''good_threshold'') \<Longrightarrow> \<not> isl (thr c ''bad_threshold'') \<Longrightarrow>
   \<not> isl (eval_roe c v)"
  by (auto simp: eval_roe_def split: sum.splits)

lemma eval_debt_to_equity_total:
  "\<not> isl (thr c ''excellent_threshold'') \<Longrightarrow> \<not> isl (thr c ''avoid_threshold'') \<Longrightarrow>
   \<not> isl (eval_debt_to_equity c v)"
  by (auto simp: eval_debt_to_equity_def split: sum.splits)

lemma eval_current_ratio_total:
  "\<not> isl (thr c ''good_threshold'') \<Longrightarrow> \<not> isl (thr c ''bad_threshold'') \<Longrightarrow>
   \<not> isl (eval_current_ratio c v)"
  by (auto simp: eval_current_ratio_def split: sum.splits)

lemma curr_symbol_spaced_total:
  "currency sd \<noteq> Some SNone \<Longrightarrow> \<not> isl (curr_symbol_spaced sd)"
  by (auto simp: curr_symbol_spaced_def get_currency_def split: option.splits pystr.splits)

lemma eval_book_value_check_total:
  "currency sd \<noteq> Some SNone \<Longrightarrow> \<not> isl (eval_book_value_check sd)"
  using curr_symbol_spaced_total [of sd]
  by (auto simp: eval_book_value_check_def Let_def split: sum.splits)

lemma eval_pe_ratio_total:
  "\<not> isl (thr c ''fair_min'') \<Longrightarrow> \<not> isl (thr c ''fair_max'') \<Longrightarrow>
   \<not> isl (thr c ''okay_max'') \<Longrightarrow> \<not> isl (eval_pe_ratio sd c)"
  by (auto simp: eval_pe_ratio_def Let_def split: sum.splits)

lemma eval_pb_ratio_total:
  "\<not> isl (thr c ''good_threshold'') \<Longrightarrow> \<not> isl (eval_pb_ratio sd c)"
  by (auto simp: eval_pb_ratio_def Let_def split: sum.splits)

lemma py_gt_total: "a \<noteq> PNone \<Longrightarrow> b \<noteq> PNone \<Longrightarrow> \<not> isl (py_gt a b)"
  by (cases a; cases b) (simp_all add: py_gt_def)

lemma eval_intrinsic_value_check_total:
  assumes "currency sd \<noteq> Some SNone" "get_default sd ''current_price'' 0 \<noteq> PNone"
    "get_default sd ''intrinsic_value'' 0 \<noteq> PNone" "\<not> isl (thr c ''discount_threshold'')"
  shows "\<not> isl (eval_intrinsic_value_check sd c)"
  using curr_symbol_spaced_total [OF assms(1)] py_gt_total [OF assms(2), of "PFloat (Fin 0)"]
    py_gt_total [OF assms(3), of "PFloat (Fin 0)"] assms(4)
  by (auto simp: eval_intrinsic_value_check_def Let_def split: sum.splits)

lemma eval_margin_total:
  "\<not> isl (thr c ''good_threshold'') \<Longrightarrow> \<not> isl (eval_margin c v)"
  by (auto simp: eval_margin_def split: sum.splits)

lemma eval_growth_alignment_total:
  assumes "scalars sd ''earnings_growth_years'' \<noteq> Some PNone"
  shows "\<not> isl (eval_growth_alignment sd)"
proof -
  let ?years = "py_or (get_default sd ''revenue_growth_years'' 0)
                  (get_default sd ''earnings_growth_years'' 0)"
  have "?years \<noteq> PNone"
    using assms by (auto simp: py_or_def get_default_def split: option.splits)
  then obtain y where "as_fl ?years = Inr y"
    by (cases ?years) auto
  then show ?thesis
    by (simp add: eval_growth_alignment_def Let_def)
qed

lemma eval_earnings_consistency_total: "\<not> isl (eval_earnings_consistency sd)"
  by (simp add: eval_earnings_consistency_def Let_def)

lemma eval_peg_ratio_total:
  "\<not> isl (thr c ''good_threshold'') \<Longrightarrow> \<not> isl (eval_peg_ratio c v)"
  by (auto simp: eval_peg_ratio_def split: sum.splits)

lemma eval_earnings_growth_total:
  "\<not> isl (thr c ''good_threshold'') \<Longrightarrow> \<not> isl (eval_earnings_growth sd c)"
  by (auto simp: eval_earnings_growth_def Let_def split: sum.splits)

lemma eval_free_cash_flow_total: "\<not> isl (eval_free_cash_flow v)"
  by (simp add: eval_free_cash_flow_def split: option.splits pynum.splits)

lemma eval_dividend_history_total: "\<not> isl (eval_dividend_history v)"
  by (simp add: eval_dividend_history_def split: option.splits pynum.splits)

lemmas eval_totals = eval_roe_total eval_debt_to_equity_total eval_current_ratio_total
  eval_book_value_check_total eval_pe_ratio_total eval_pb_ratio_total
  eval_intrinsic_value_check_total eval_margin_total eval_growth_alignment_total
  eval_earnings_consistency_total eval_peg_ratio_total eval_earnings_growth_total
  eval_free_cash_flow_total eval_dividend_history_total

lemma criteria_verdicts_total:
  assumes "currency sd \<noteq> Some SNone" "get_default sd ''current_price'' 0 \<noteq> PNone"
    "get_default sd ''intrinsic_value'' 0 \<noteq> PNone"
    "scalars sd ''earnings_growth_years'' \<noteq> Some PNone"
  shows "list_all (\<lambda>c. \<not> isl (criterion_verdict sd c)) buffett_criteria"
  unfolding buffett_criteria_def
  by (simp add: criterion_verdict_def crit_key_mk thr_table eval_totals assms Let_def)

lemma evaluate_criterion_total:
  "\<not> isl (criterion_verdict sd c) \<Longrightarrow> \<exists>r. evaluate_criterion sd c = Inr r"
  by (auto simp: evaluate_criterion_def split: sum.splits prod.splits)

lemma evaluate_criterion_name:
  "evaluate_criterion sd c = Inr r \<Longrightarrow> res_name r = crit_name c"
  by (auto simp: evaluate_criterion_def split: sum.splits prod.splits)

subsection \<open>The loop over the criteria\<close>

lemma evaluate_all_results:
  "evaluate_all sd cs ms sc = Inr (ms', sc') \<Longrightarrow>
     \<exists>rs. ms' = ms @ rs \<and> length rs = length cs \<and>
          sc' = sc + length (filter passed rs) \<and> map res_name rs = map crit_name cs"
proof (induction cs arbitrary: ms sc)
  case Nil
  then show ?case by simp
next
  case (Cons c cs)
  then obtain r where r: "evaluate_criterion sd c = Inr r"
    and rest: "evaluate_all sd cs (ms @ [r]) (if passed r then sc + 1 else sc) = Inr (ms', sc')"
    by (auto split: sum.splits)
  from Cons.IH [OF rest] obtain rs where
    "ms' = (ms @ [r]) @ rs" "length rs = length cs"
    "sc' = (if passed r then sc + 1 else sc) + length (filter passed rs)"
    "map res_name rs = map crit_name cs"
    by blast
  then show ?case
    using evaluate_criterion_name [OF r] by (intro exI [of _ "r # rs"]) auto
qed

lemma evaluate_all_total:
  "\<forall>c \<in> set cs. \<exists>r. evaluate_criterion sd c = Inr r \<Longrightarrow>
     \<exists>out. evaluate_all sd cs ms sc = Inr out"
  by (induction cs arbitrary: ms sc) auto

lemma length_buffett_criteria: "length buffett_criteria = 15"
  by (simp add: buffett_criteria_def)

lemma generate_recommendation_total:
  assumes "get_default sd ''current_price'' 0 \<noteq> PNone"
      and "\<exists>a. scalars sd ''intrinsic_value'' = Some (PFloat a)"
  shows "\<exists>r. generate_recommendation sd s = Inr r"
proof -
  from assms(2) obtain a where a: "scalars sd ''intrinsic_value'' = Some (PFloat a)" by blast
  obtain x where x: "as_fl (get_default sd ''current_price'' 0) = Inr x"
    using assms(1) by (cases "get_default sd ''current_price'' 0") auto
  show ?thesis
    by (auto simp: generate_recommendation_def a x py_gt_def Let_def)
qed

lemma analyze_stock_total:
  assumes "analysable sd"
  shows "\<exists>r. snd (analyze_stock buffett_criteria now sd) = Inr r"
proof -
  let ?sd = "update_scalars sd (calculate_derived_metrics sd)"
  have cur: "currency ?sd \<noteq> Some SNone"
    using assms by (simp add: analysable_def update_scalars_def)
  have price: "get_default ?sd ''current_price'' 0 \<noteq> PNone"
    using assms
    by (auto simp: analysable_def get_default_def analyzed_other_key derived_key_list_def
          split: option.splits)
  have years: "scalars ?sd ''earnings_growth_years'' \<noteq> Some PNone"
    using assms by (simp add: analysable_def analyzed_other_key derived_key_list_def)
  have iv: "\<exists>a. scalars ?sd ''intrinsic_value'' = Some (PFloat a)"
    by (rule analyzed_intrinsic_value)
  then have iv': "get_default ?sd ''intrinsic_value'' 0 \<noteq> PNone"
    by (auto simp: get_default_def)
  have "\<forall>c \<in> set buffett_criteria. \<exists>r. evaluate_criterion ?sd c = Inr r"
    using criteria_verdicts_total [OF cur price iv' years]
    by (auto simp: list_all_iff intro: evaluate_criterion_total)
  then obtain out where out: "evaluate_all ?sd buffett_criteria [] 0 = Inr out"
    using evaluate_all_total by blast
  obtain rcm where "generate_recommendation ?sd (snd out) = Inr rcm"
    using generate_recommendation_total [OF price iv] by blast
  with out show ?thesis
    by (cases out) (simp add: analyze_stock_def Let_def)
qed

lemma analyze_stock_score:
  assumes "snd (analyze_stock buffett_criteria now sd) = Inr r"
  shows "total_score r = length (filter passed (metrics r)) \<and> total_score r \<le> 15 \<and>
         length (metrics r) = 15 \<and> map res_name (metrics r) = map crit_name buffett_criteria"
proof -
  let ?sd = "update_scalars sd (calculate_derived_metrics sd)"
  from assms obtain ms sc where ev: "evaluate_all ?sd buffett_criteria [] 0 = Inr (ms, sc)"
    and r: "total_score r = sc" "metrics r = ms"
    by (auto simp: analyze_stock_def Let_def split: sum.splits prod.splits)
  from evaluate_all_results [OF ev] have "length ms = 15" "sc = length (filter passed ms)"
    "map res_name ms = map crit_name buffett_criteria"
    by (auto simp: length_buffett_criteria)
  moreover have "length (filter passed ms) \<le> length ms" by simp
  ultimately show ?thesis using r by simp
qed

text \<open>
  On an analysable snapshot the analysis returns a result; and whenever it returns one,
  the \<open>total_score\<close> is the number of entries of the returned metrics list whose
  \<open>passed\<close> is true, it is at most 15, and the list has one entry per criterion of
  the 15-entry table, in the table's order.
\<close>

lemma analysable_total_score:
  "(analysable sd \<longrightarrow> (\<exists>r. snd (analyze_stock buffett_criteria now sd) = Inr r)) \<and>
   (\<forall>r. snd (analyze_stock buffett_criteria now sd) = Inr r \<longrightarrow>
        total_score r = length (filter passed (metrics r)) \<and> total_score r \<le> 15 \<and>
        length (metrics r) = 15 \<and>
        map res_name (metrics r) = map crit_name buffett_criteria)"
  using analyze_stock_total [of sd now] analyze_stock_score [of now sd] by blast

subsection \<open>A price that is None\<close>

lemma evaluate_all_raises:
  "list_all (\<lambda>c. \<not> isl (evaluate_criterion sd c) \<or> evaluate_criterion sd c = Inl e) pre \<Longrightarrow>
   evaluate_criterion sd c = Inl e \<Longrightarrow>
   evaluate_all sd (pre @ c # post) ms sc = Inl e"
  by (induction pre arbitrary: ms sc) (auto split: sum.splits)

lemma curr_symbol_spaced_error:
  "\<not> isl (curr_symbol_spaced sd) \<or> curr_symbol_spaced sd = Inl TypeError"
  by (simp add: curr_symbol_spaced_def split: pystr.splits)

lemma eval_book_value_check_error:
  "\<not> isl (eval_book_value_check sd) \<or> eval_book_value_check sd = Inl TypeError"
  using curr_symbol_spaced_error [of sd]
  by (auto simp: eval_book_value_check_def Let_def split: sum.splits)

lemma eval_intrinsic_value_check_none:
  "get_default sd ''current_price'' 0 = PNone \<Longrightarrow>
   eval_intrinsic_value_check sd c = Inl TypeError"
  using curr_symbol_spaced_error [of sd]
  by (auto simp: eval_intrinsic_value_check_def py_gt_def Let_def split: sum.splits)

lemma evaluate_criterion_isl:
  "isl (evaluate_criterion sd c) = isl (criterion_verdict sd c)"
  "(evaluate_criterion sd c = Inl e) = (criterion_verdict sd c = Inl e)"
  by (auto simp: evaluate_criterion_def split: sum.splits prod.splits)

lemma none_price_first_six:
  "list_all (\<lambda>c. \<not> isl (criterion_verdict sd c) \<or> criterion_verdict sd c = Inl TypeError)
     (take 6 buffett_criteria)"
  unfolding buffett_criteria_def
  using eval_book_value_check_error [of sd]
  by (simp add: criterion_verdict_def crit_key_mk thr_table eval_roe_total
        eval_debt_to_equity_total eval_current_ratio_total eval_pe_ratio_total
        eval_pb_ratio_total Let_def)

lemma none_price_seventh:
  "get_default sd ''current_price'' 0 = PNone \<Longrightarrow>
   criterion_verdict sd (buffett_criteria ! 6) = Inl TypeError"
  unfolding buffett_criteria_def
  by (simp add: criterion_verdict_def crit_key_mk eval_intrinsic_value_check_none Let_def)

lemma buffett_criteria_split:
  "buffett_criteria = take 6 buffett_criteria @ buffett_criteria ! 6 # drop 7 buffett_criteria"
  by (simp add: buffett_criteria_def)

text \<open>
  C1 fails on a snapshot whose \<open>current_price\<close> is \<open>None\<close>: \<open>analyze_stock\<close> returns
  no score for it but raises \<open>TypeError\<close>. The derived metrics read the price with the
  fallback \<open>or 0\<close> and leave the entry as it is; the first six criteria are evaluated
  (the fourth raises \<open>TypeError\<close> itself when the currency is \<open>None\<close> too); the
  seventh, \<open>intrinsic_value_check\<close>, reads the price without the fallback and compares
  \<open>None > 0\<close>.
\<close>

theorem analyze_stock_raises_on_none_price:
  assumes "scalars sd ''current_price'' = Some PNone"
  shows "snd (analyze_stock buffett_criteria now sd) = Inl TypeError"
proof -
  let ?sd = "update_scalars sd (calculate_derived_metrics sd)"
  have "scalars ?sd ''current_price'' = Some PNone"
    using assms by (simp add: analyzed_other_key derived_key_list_def)
  then have price: "get_default ?sd ''current_price'' 0 = PNone"
    by (simp add: get_default_def)
  have "evaluate_all ?sd (take 6 buffett_criteria @ buffett_criteria ! 6 # drop 7 buffett_criteria)
          [] 0 = Inl TypeError"
    using none_price_first_six [of ?sd] none_price_seventh [OF price]
    by (intro evaluate_all_raises) (simp_all add: evaluate_criterion_isl)
  then have "evaluate_all ?sd buffett_criteria [] 0 = Inl TypeError"
    using buffett_criteria_split by simp
  then show ?thesis
    by (simp add: analyze_stock_def Let_def)
qed

theorem analyze_stock_raises_on_none_price_snapshot:
  "scalars none_price_snapshot ''current_price'' = Some PNone \<and>
   snd (analyze_stock buffett_criteria () none_price_snapshot) = Inl TypeError"
  using analyze_stock_raises_on_none_price [of none_price_snapshot "()"]
  by (simp add: none_price_snapshot_def)

subsection \<open>Recommendation\<close>

lemma scenario_recommendation:
  "generate_recommendation scenario_snapshot 13 =
     Inr \<lparr> rec_status = ''Buy'', rec_current_price = PFloat (Fin 100),
           rec_intrinsic_value = PFloat (Fin 150), margin_of_safety = Fin (100 / 3),
           buy_price_min = Fin 95, buy_price_max = Fin 105, target_price = Fin 105,
           rec_currency_symbol = SStr rupee \<rparr>"
  by (simp add: generate_recommendation_def scenario_snapshot_def get_default_def py_gt_def
        fgt_def fge_def fle_def fsub_def Let_def)




text \<open>
  C10. Every recommendation that is returned has \<open>target_price\<close> equal to
  \<open>buy_price_max\<close>; so with status Buy the target is 1.05 times the price (first row)
  or the price itself (second row), never a value derived from the intrinsic value.
\<close>

theorem target_is_buy_price_max:
  assumes "generate_recommendation sd s = Inr r"
  shows "target_price r = buy_price_max r \<and>
     (rec_status r = ''Buy'' \<longrightarrow>
        target_price r = fmul (num_of (get_default sd ''current_price'' 0)) (Fin 1.05) \<or>
        target_price r = num_of (get_default sd ''current_price'' 0))"
  using assms
  by (auto simp: generate_recommendation_def Let_def split: sum.splits if_splits)

theorem target_is_buy_price_max_scenario:
  "\<exists>r. generate_recommendation scenario_snapshot 13 = Inr r \<and>
     target_price r = buy_price_max r \<and> rec_status r = ''Buy'' \<and> target_price r = Fin 105"
  using target_is_buy_price_max [OF scenario_recommendation]
  by (simp add: scenario_recommendation)

subsection \<open>Intrinsic value: the sanity bounds\<close>

lemma upt_years: "[Suc 0..<11] = [1, 2, 3, 4, 5, 6, 7, 8, 9, 10]"
  by (simp add: upt_rec)

lemma rounding_snapshot_dcf:
  "dcf_per_share (Fin 1000000) (Fin 1) (Fin 10) =
     Fin (118216056961544629847 / 6585104824320)"
  by (simp add: dcf_per_share_def upt_years dcf_year_def fmin_def fsub_def
        discount_rate_def terminal_growth_rate_def projection_years_def Let_def power_divide)

lemma rounding_snapshot_value:
  "calculate_buffett_dcf_intrinsic_value rounding_snapshot = Fin 50.01"
  by (simp add: calculate_buffett_dcf_intrinsic_value_def rounding_snapshot_def
        estimated_fcf_def get_or_def get_default_def ftruthy_def fle_def fgt_def
        rounding_snapshot_dcf sanity_bounds_def Let_def round2_def round_half_even_def)

text \<open>
  C3 fails on the DCF path: the value is clamped to the band \<open>[0.2 p, 5 p]\<close> and only
  then rounded to two decimals, and the rounding can leave the band that the clamp has
  just enforced. At price 10.0012, free cash flow 1000000 and one share the DCF value
  lies far above the band, the clamp gives \<open>5 p = 50.006\<close>, and the function returns
  50.01, which is more than \<open>5 p\<close>. (The product is not near a rounding tie, so the
  binary computation returns 50.01 too.)
\<close>

theorem dcf_value_outside_band:
  "get_or rounding_snapshot ''current_price'' 0 = Fin 10.0012 \<and>
   calculate_buffett_dcf_intrinsic_value rounding_snapshot = Fin 50.01 \<and>
   \<not> fle (Fin 50.01) (fmul (Fin 5) (Fin 10.0012))"
  by (simp add: rounding_snapshot_value fle_def)
     (simp add: rounding_snapshot_def get_or_def get_default_def ftruthy_def)

subsection \<open>The analysis and its input\<close>

text \<open>
  C9, as it is stated, fails: \<open>analyze_stock\<close> merges the derived metrics into the
  dict it is given, so the snapshot after the call is not the snapshot before it.
\<close>

theorem analyze_stock_changes_snapshot:
  "fst (analyze_stock buffett_criteria () scenario_snapshot) \<noteq> scenario_snapshot"
proof
  assume "fst (analyze_stock buffett_criteria () scenario_snapshot) = scenario_snapshot"
  then have "scalars (fst (analyze_stock buffett_criteria () scenario_snapshot))
               ''promoter_pledging'' = scalars scenario_snapshot ''promoter_pledging''"
    by simp
  then show False
    by (simp add: analyze_stock_def Let_def update_scalars_def calculate_derived_metrics_def
          scenario_snapshot_def)
qed

text \<open>
  C9, amended. \<open>analyze_stock\<close> changes its input snapshot only at the keys of the
  derived metrics: afterwards each of the 14 derived keys is present, every scalar entry
  under another key is as before, and so is every other slot (symbol, currency, net
  income history, statement tables, price history). The snapshot after the call and the
  outcome, apart from the timestamp, are functions of the snapshot before the call: two
  calls on equal snapshots agree whatever the clock reads.
\<close>

theorem analyze_stock_frame:
  "(\<forall>k. k \<notin> set derived_key_list \<longrightarrow>
        scalars (fst (analyze_stock cs now sd)) k = scalars sd k) \<and>
   set derived_key_list \<subseteq> dom (scalars (fst (analyze_stock cs now sd))) \<and>
   (fst (analyze_stock cs now sd)) \<lparr> scalars := scalars sd \<rparr> = sd \<and>
   fst (analyze_stock cs now sd) = fst (analyze_stock cs now' sd) \<and>
   map_sum id (analysis_timestamp_update (\<lambda>_. t)) (snd (analyze_stock cs now sd)) =
   map_sum id (analysis_timestamp_update (\<lambda>_. t)) (snd (analyze_stock cs now' sd))"
proof -
  have sd': "fst (analyze_stock cs now sd) = update_scalars sd (calculate_derived_metrics sd)"
    "fst (analyze_stock cs now' sd) = update_scalars sd (calculate_derived_metrics sd)"
    by (simp_all add: analyze_stock_def Let_def)
  have "set derived_key_list \<subseteq> dom (scalars (update_scalars sd (calculate_derived_metrics sd)))"
    by (simp add: update_scalars_def dom_map_of_conv_image_fst derived_keys_set)
  moreover have "(update_scalars sd (calculate_derived_metrics sd)) \<lparr> scalars := scalars sd \<rparr> = sd"
    by (simp add: update_scalars_def)
  moreover have
    "map_sum id (analysis_timestamp_update (\<lambda>_. t)) (snd (analyze_stock cs now sd)) =
     map_sum id (analysis_timestamp_update (\<lambda>_. t)) (snd (analyze_stock cs now' sd))"
    by (auto simp add: analyze_stock_def Let_def split: sum.splits prod.splits)
  ultimately show ?thesis
    by (simp add: sd' analyzed_other_key)
qed

theorem analyze_stock_frame_scenario:
  "''current_price'' \<notin> set derived_key_list \<and>
   scalars (fst (analyze_stock buffett_criteria () scenario_snapshot)) ''current_price'' =
     Some (PFloat (Fin 100)) \<and>
   ''roe'' \<in> dom (scalars (fst (analyze_stock buffett_criteria () scenario_snapshot)))"
proof -
  have a: "''current_price'' \<notin> set derived_key_list"
    and b: "''roe'' \<in> set derived_key_list"
    by (simp_all add: derived_key_list_def)
  have c: "scalars scenario_snapshot ''current_price'' = Some (PFloat (Fin 100))"
    by (simp add: scenario_snapshot_def)
  from analyze_stock_frame [of buffett_criteria "()" scenario_snapshot "()" "()"] a b c
  show ?thesis by auto
qed

lemma analyzed_snapshot:
  "fst (analyze_stock cs now sd) = update_scalars sd (calculate_derived_metrics sd)"
  by (simp add: analyze_stock_def Let_def)

lemma analyzed_value:
  "scalars (update_scalars sd (calculate_derived_metrics sd)) ''intrinsic_value'' =
     Some (PFloat (calculate_buffett_dcf_intrinsic_value sd))"
  by (simp add: update_scalars_def calculate_derived_metrics_def Let_def)

lemma analyzed_free_cash_flow:
  "scalars (update_scalars sd (calculate_derived_metrics sd)) ''free_cash_flow'' =
     Some (PBool (fgt (get_or sd ''free_cash_flow'' 0) (Fin 0)))"
  by (simp add: update_scalars_def calculate_derived_metrics_def Let_def)

lemma unit_dcf:
  "dcf_per_share (Fin 1) (Fin 1) (Fin 10) =
     Fin (118216056961544629847 / 6585104824320000000)"
  by (simp add: dcf_per_share_def upt_years dcf_year_def fmin_def fsub_def
        discount_rate_def terminal_growth_rate_def projection_years_def Let_def power_divide)

lemma reanalysed_scalars:
  fixes sd defines "sd \<equiv> update_scalars rounding_snapshot (calculate_derived_metrics rounding_snapshot)"
  shows "scalars sd ''current_price'' = Some (PFloat (Fin 10.0012))"
    "scalars sd ''shares_outstanding'' = Some (PFloat (Fin 1))"
    "scalars sd ''earnings_growth'' = None"
    "scalars sd ''free_cash_flow'' = Some (PBool True)"
proof -
  have k: "''current_price'' \<notin> set derived_key_list" "''shares_outstanding'' \<notin> set derived_key_list"
    "''earnings_growth'' \<notin> set derived_key_list"
    by (simp_all add: derived_key_list_def)
  show "scalars sd ''current_price'' = Some (PFloat (Fin 10.0012))"
    "scalars sd ''shares_outstanding'' = Some (PFloat (Fin 1))"
    "scalars sd ''earnings_growth'' = None"
    unfolding sd_def by (simp_all only: analyzed_other_key [OF k(1)] analyzed_other_key [OF k(2)]
      analyzed_other_key [OF k(3)]) (simp_all add: rounding_snapshot_def)
  have "get_or rounding_snapshot ''free_cash_flow'' 0 = Fin 1000000"
    by (simp add: get_or_def get_default_def rounding_snapshot_def ftruthy_def)
  then show "scalars sd ''free_cash_flow'' = Some (PBool True)"
    unfolding sd_def by (simp add: analyzed_free_cash_flow fgt_def)
qed


lemma reanalysed_inputs:
  fixes sd defines "sd \<equiv> update_scalars rounding_snapshot (calculate_derived_metrics rounding_snapshot)"
  shows "get_or sd ''current_price'' 0 = Fin 10.0012"
    "get_or sd ''shares_outstanding'' 0 = Fin 1"
    "get_or sd ''earnings_growth'' 10 = Fin 10"
    "get_or sd ''free_cash_flow'' 0 = Fin 1"
  unfolding sd_def
  by (simp_all add: get_or_def get_default_def reanalysed_scalars ftruthy_def)

lemma reanalysed_fcf:
  "estimated_fcf (update_scalars rounding_snapshot (calculate_derived_metrics rounding_snapshot)) = Fin 1"
  unfolding estimated_fcf_def Let_def reanalysed_inputs
  by (simp add: fle_def)

lemma round2_unit_dcf: "round2 (118216056961544629847 / 6585104824320000000) = 17.95"
  by (simp add: round2_def round_half_even_def Let_def)

lemma second_value:
  "calculate_buffett_dcf_intrinsic_value
     (update_scalars rounding_snapshot (calculate_derived_metrics rounding_snapshot)) = Fin 17.95"
  unfolding calculate_buffett_dcf_intrinsic_value_def Let_def reanalysed_inputs reanalysed_fcf unit_dcf
  by (simp add: sanity_bounds_def fle_def fgt_def round2_unit_dcf)

text \<open>
  A consequence for a caller that analyses the same dict twice: the first call replaces
  the free cash flow 1000000 by the flag \<open>True\<close>, which the second call reads as the
  number 1, so the second intrinsic value is 17.95 where the first was 50.01.
\<close>

lemma second_analysis_differs:
  "scalars (fst (analyze_stock buffett_criteria () rounding_snapshot)) ''intrinsic_value'' =
     Some (PFloat (Fin 50.01)) \<and>
   scalars (fst (analyze_stock buffett_criteria ()
              (fst (analyze_stock buffett_criteria () rounding_snapshot)))) ''intrinsic_value'' =
     Some (PFloat (Fin 17.95))"
  unfolding analyzed_snapshot analyzed_value rounding_snapshot_value second_value
  by simp

subsection \<open>Piotroski F-Score\<close>

lemma pio_score_award: "pio_score (award l b st) = pio_score st + (if b then 1 else 0)"
  by (simp add: award_def)

lemma reading_le:
  "pio_score st \<le> n \<Longrightarrow> (\<And>v. pio_score (k v) \<le> n) \<Longrightarrow> pio_score (reading r st k) \<le> n"
  by (cases r) (simp_all add: reading_def)

lemma piotroski_le_9: "pio_score (get_piotroski_f_score fin bs cf) \<le> 9"
proof -
  have nine: "(9::nat) = Suc (Suc (Suc (Suc (Suc (Suc (Suc (Suc (Suc 0))))))))" by simp
  show ?thesis
    unfolding get_piotroski_f_score_def Let_def nine
    apply (simp only: if_distrib [of pio_score] if_distrib [of "\<lambda>x. x \<le> _"] split: if_split)
    apply (intro conjI impI reading_le)
    apply (simp_all add: pio_score_award del: One_nat_def)
    done
qed

lemma reading_Inr: "reading (Inr v) st k = k v"
  by (simp add: reading_def)

lemma div_or_zero_Fin: "div_or_zero (Fin a) (Fin b) = Fin (a / b)"
  by (simp add: div_or_zero_def ftruthy_def)

lemma f_or_Fin: "a \<noteq> 0 \<Longrightarrow> f_or (Fin a) y = Fin a"
  by (simp add: f_or_def ftruthy_def)

lemma clearly_gt_gt: "clearly_gt x y \<Longrightarrow> x > y"
proof -
  assume "clearly_gt x y"
  then have "x - y > (\<bar>x\<bar> + \<bar>y\<bar>) / 10 ^ 9" by (simp add: clearly_gt_def)
  moreover have "(\<bar>x\<bar> + \<bar>y\<bar>) / 10 ^ 9 \<ge> 0" by simp
  ultimately show ?thesis by linarith
qed

lemma ratio_or_zero_div: "ratio_or_zero a b = a / b"
  by (simp add: ratio_or_zero_def)

lemma reading_cases: "P st \<Longrightarrow> (\<And>v. P (k v)) \<Longrightarrow> P (reading r st k)"
  by (cases r) (simp_all add: reading_def)

lemma award_counts:
  "pio_score st = length (filter snd (pio_details st)) \<Longrightarrow>
   pio_score (award l b st) = length (filter snd (pio_details (award l b st)))"
  by (simp add: award_def)

lemma piotroski_counts_details:
  "pio_score (get_piotroski_f_score fin bs cf) =
     length (filter snd (pio_details (get_piotroski_f_score fin bs cf)))"
proof -
  let ?P = "\<lambda>st. pio_score st = length (filter snd (pio_details st))"
  have "?P (get_piotroski_f_score fin bs cf)"
    unfolding get_piotroski_f_score_def Let_def
    apply (simp only: split: if_split)
    apply (intro conjI impI reading_cases [where P = ?P] award_counts)
    apply simp_all
    done
  then show ?thesis .
qed

lemma piotroski_nine_tests:
  assumes h: "reads_two_years fin bs cf y" and c: "nine_tests y"
  shows "get_piotroski_f_score fin bs cf =
     \<lparr> pio_score = 9, pio_details = [(''Positive ROA'', True), (''Positive OCF'', True),
        (''ROA Increasing'', True), (''Quality of Earnings (OCF > NI)'', True),
        (''Lower Leverage'', True), (''Higher Liquidity (Current Ratio)'', True),
        (''No Dilution'', True), (''Higher Gross Margin'', True),
        (''Higher Asset Turnover'', True)] \<rparr>"
proof -
  define t where "t = rev (sort (columns fin)) ! 0"
  define t_1 where "t_1 = rev (sort (columns fin)) ! Suc 0"
  define avg where "avg = (y_total_assets y + y_total_assets_prev y) / 2"
  have ne: "\<not> df_empty fin" "\<not> df_empty bs" "\<not> df_empty cf"
    using h by (simp_all add: reads_two_years_def)
  have len: "\<not> length (columns fin) < 2"
    using h by (simp add: reads_two_years_def)
  have t: "rev (sort (columns fin)) ! 0 = t" "rev (sort (columns fin)) ! Suc 0 = t_1"
    by (simp_all add: t_def t_1_def)
  have vals:
    "get_val fin ''Net Income'' t = Inr (Fin (y_net_income y))"
    "get_val fin ''Net Income'' t_1 = Inr (Fin (y_net_income_prev y))"
    "get_val bs ''Total Assets'' t = Inr (Fin (y_total_assets y))"
    "get_val bs ''Total Assets'' t_1 = Inr (Fin (y_total_assets_prev y))"
    "get_val cf ''Total Cash From Operating Activities'' t = Inr (Fin (y_ocf y))"
    "get_val bs ''Long Term Debt'' t = Inr (Fin (y_lt_debt y))"
    "get_val bs ''Long Term Debt'' t_1 = Inr (Fin (y_lt_debt_prev y))"
    "get_val bs ''Current Assets'' t = Inr (Fin (y_curr_assets y))"
    "get_val bs ''Current Liabilities'' t = Inr (Fin (y_curr_liab y))"
    "get_val bs ''Current Assets'' t_1 = Inr (Fin (y_curr_assets_prev y))"
    "get_val bs ''Current Liabilities'' t_1 = Inr (Fin (y_curr_liab_prev y))"
    "get_val_or bs ''Ordinary Shares Number'' ''Common Stock'' t = Inr (Fin (y_shares y))"
    "get_val_or bs ''Ordinary Shares Number'' ''Common Stock'' t_1 = Inr (Fin (y_shares_prev y))"
    "get_val fin ''Total Revenue'' t = Inr (Fin (y_revenue y))"
    "get_val fin ''Gross Profit'' t = Inr (Fin (y_gross_profit y))"
    "get_val fin ''Total Revenue'' t_1 = Inr (Fin (y_revenue_prev y))"
    "get_val fin ''Gross Profit'' t_1 = Inr (Fin (y_gross_profit_prev y))"
    using h by (simp_all add: reads_two_years_def Let_def t_def t_1_def)
  have pos: "y_total_assets y > 0" "y_total_assets_prev y > 0"
    using c by (simp_all add: nine_tests_def Let_def)
  then have nz: "y_total_assets y \<noteq> 0" "y_total_assets_prev y \<noteq> 0" by simp_all
  have avg: "avg > 0" using pos by (simp add: avg_def)
  have c1: "y_net_income y / avg > 0"
    using c avg by (simp add: nine_tests_def Let_def)
  have c2: "y_ocf y > 0" and c4: "y_ocf y > y_net_income y"
    and c7: "y_shares y \<le> y_shares_prev y"
    using c by (simp_all add: nine_tests_def Let_def)
  have c3: "y_net_income y / avg > y_net_income_prev y / y_total_assets_prev y"
    using c by (simp add: nine_tests_def Let_def avg_def clearly_gt_gt)
  have c5: "y_lt_debt y / avg \<le> y_lt_debt_prev y / y_total_assets_prev y"
  proof -
    from c consider "y_lt_debt y \<le> 0 \<and> 0 \<le> y_lt_debt_prev y"
      | "clearly_gt (y_lt_debt_prev y / y_total_assets_prev y) (y_lt_debt y / avg)"
      by (auto simp: nine_tests_def Let_def avg_def)
    then show ?thesis
    proof cases
      case 1
      then have "y_lt_debt y / avg \<le> 0" "0 \<le> y_lt_debt_prev y / y_total_assets_prev y"
        using avg pos by (simp_all add: divide_le_0_iff)
      then show ?thesis by linarith
    next
      case 2
      then show ?thesis using clearly_gt_gt by fastforce
    qed
  qed
  have c6: "y_curr_assets y / y_curr_liab y > y_curr_assets_prev y / y_curr_liab_prev y"
    using c clearly_gt_gt [of "ratio_or_zero (y_curr_assets y) (y_curr_liab y)"
        "ratio_or_zero (y_curr_assets_prev y) (y_curr_liab_prev y)"]
    by (simp add: nine_tests_def Let_def ratio_or_zero_div)
  have c8: "y_gross_profit y / y_revenue y > y_gross_profit_prev y / y_revenue_prev y"
    using c clearly_gt_gt [of "ratio_or_zero (y_gross_profit y) (y_revenue y)"
        "ratio_or_zero (y_gross_profit_prev y) (y_revenue_prev y)"]
    by (simp add: nine_tests_def Let_def ratio_or_zero_div)
  have c9: "y_revenue y / avg > y_revenue_prev y / y_total_assets_prev y"
    using c by (simp add: nine_tests_def Let_def avg_def clearly_gt_gt)
  have assets: "fdiv (fadd (Fin (y_total_assets y)) (Fin (y_total_assets_prev y))) (Fin 2) = Fin avg"
    by (simp add: avg_def)
  show ?thesis
    unfolding get_piotroski_f_score_def
    using c1 c2 c3 c4 c5 c6 c7 c8 c9
    by (simp add: ne len t vals reading_Inr f_or_Fin nz assets div_or_zero_Fin Let_def award_def
          fgt_def fle_def del: fdiv.simps fadd.simps)
qed

lemma example_reads:
  "reads_two_years example_financials example_balance_sheet example_cash_flow example_years"
  by (simp add: reads_two_years_def df_empty_def get_val_def get_val_or_def loc_def ftruthy_def
      example_financials_def example_balance_sheet_def example_cash_flow_def example_years_def
      table_frame_def Let_def)

lemma example_tests: "moderate_years example_years" "nine_tests example_years"
  by (simp_all add: moderate_years_def moderate_def nine_tests_def clearly_gt_def
        ratio_or_zero_def example_years_def Let_def)

lemma growing_reads:
  "reads_two_years growing_financials growing_balance_sheet example_cash_flow growing_years"
  by (simp add: reads_two_years_def df_empty_def get_val_def get_val_or_def loc_def ftruthy_def
      growing_financials_def growing_balance_sheet_def example_cash_flow_def growing_years_def
      table_frame_def Let_def)

lemma growing_score:
  "get_piotroski_f_score growing_financials growing_balance_sheet example_cash_flow =
     \<lparr> pio_score = 8, pio_details = [(''Positive ROA'', True), (''Positive OCF'', True),
        (''ROA Increasing'', True), (''Quality of Earnings (OCF > NI)'', True),
        (''Lower Leverage'', False), (''Higher Liquidity (Current Ratio)'', True),
        (''No Dilution'', True), (''Higher Gross Margin'', True),
        (''Higher Asset Turnover'', True)] \<rparr>"
proof -
  note r = growing_reads [unfolded reads_two_years_def Let_def]
  show ?thesis
    unfolding get_piotroski_f_score_def
    using r
    by (simp add: reading_Inr f_or_Fin div_or_zero_Fin Let_def award_def fgt_def fle_def
          growing_years_def)
qed

text \<open>
  C5, as it is stated, fails. In the two years of the growing company all nine
  conditions hold, each ratio being taken over the year's own total assets: return on
  assets rises from 4% to 6% and long-term debt falls from 40% to 39% of assets. The
  function measures the current year's leverage over the average assets of the two
  years, \<open>390 / 750 = 52%\<close>, compares it with the prior 40%, and returns 8 points with
  \<open>Lower Leverage\<close> false. (All nine comparisons have wide margins here, so the binary
  computation gives the same answers.)
\<close>

theorem piotroski_leverage_on_average_assets:
  "nine_conditions_year_end growing_years \<and>
   reads_two_years growing_financials growing_balance_sheet example_cash_flow growing_years \<and>
   get_piotroski_f_score growing_financials growing_balance_sheet example_cash_flow =
     \<lparr> pio_score = 8, pio_details = [(''Positive ROA'', True), (''Positive OCF'', True),
        (''ROA Increasing'', True), (''Quality of Earnings (OCF > NI)'', True),
        (''Lower Leverage'', False), (''Higher Liquidity (Current Ratio)'', True),
        (''No Dilution'', True), (''Higher Gross Margin'', True),
        (''Higher Asset Turnover'', True)] \<rparr>"
  using growing_reads growing_score
  by (simp add: nine_conditions_year_end_def growing_years_def)

text \<open>
  C5, amended. For every triple of statement tables the F-Score is a natural number at
  most 9, and it is the number of true entries among the recorded details. When the
  function's seventeen reads of two years of statements return finite numbers of
  moderate size, and these pass the nine tests as the function measures them (current
  year over average assets, prior year over prior assets, total assets positive, each
  comparison of ratios with a clear margin), the score is 9 and the nine details are
  recorded true under their labels.
\<close>

theorem piotroski_score_range_and_nine_tests:
  "pio_score (get_piotroski_f_score fin bs cf) \<le> 9 \<and>
   pio_score (get_piotroski_f_score fin bs cf) =
     length (filter snd (pio_details (get_piotroski_f_score fin bs cf))) \<and>
   (reads_two_years fin bs cf y \<and> moderate_years y \<and> nine_tests y \<longrightarrow>
      get_piotroski_f_score fin bs cf =
        \<lparr> pio_score = 9, pio_details = [(''Positive ROA'', True), (''Positive OCF'', True),
           (''ROA Increasing'', True), (''Quality of Earnings (OCF > NI)'', True),
           (''Lower Leverage'', True), (''Higher Liquidity (Current Ratio)'', True),
           (''No Dilution'', True), (''Higher Gross Margin'', True),
           (''Higher Asset Turnover'', True)] \<rparr>)"
  using piotroski_le_9 [of fin bs cf] piotroski_counts_details [of fin bs cf]
    piotroski_nine_tests [of fin bs cf y]
  by blast

theorem piotroski_nine_tests_example:
  "reads_two_years example_financials example_balance_sheet example_cash_flow example_years \<and>
   moderate_years example_years \<and> nine_tests example_years \<and>
   pio_score (get_piotroski_f_score example_financials example_balance_sheet
     example_cash_flow) = 9"
proof -
  have "get_piotroski_f_score example_financials example_balance_sheet example_cash_flow =
        \<lparr> pio_score = 9, pio_details = [(''Positive ROA'', True), (''Positive OCF'', True),
           (''ROA Increasing'', True), (''Quality of Earnings (OCF > NI)'', True),
           (''Lower Leverage'', True), (''Higher Liquidity (Current Ratio)'', True),
           (''No Dilution'', True), (''Higher Gross Margin'', True),
           (''Higher Asset Turnover'', True)] \<rparr>"
    using piotroski_score_range_and_nine_tests [of example_financials example_balance_sheet
        example_cash_flow example_years] example_reads example_tests
    by blast
  then show ?thesis
    using example_reads example_tests by simp
qed

subsection \<open>Altman Z-Score\<close>






subsection \<open>Reverse DCF\<close>



















subsection \<open>Technical indicators\<close>

lemma rolling_single: "1 < n \<Longrightarrow> rolling n agg [x] = [NaN]"
  by (simp add: rolling_def)

lemma single_row_columns:
  "rolling 50 mean [c] = [NaN]" "rolling 200 mean [c] = [NaN]"
  "calculate_rsi [c] = [NaN]" "macd_line [c] = [0]" "signal_line [c] = [0]"
  "stoch_k_series [b] = [NaN]" "stoch_d_series [b] = [NaN]"
  "ewm_mean 9 [c] = [c]" "ewm_mean 21 [c] = [c]"
  "bb_upper_series [c] = [NaN]" "bb_lower_series [c] = [NaN]"
  by (simp_all add: rolling_single calculate_rsi_def diffs_def macd_line_def signal_line_def
        ewm_mean_def stoch_k_series_def stoch_d_series_def bb_upper_series_def
        bb_lower_series_def fsub_def Let_def)

lemma flt_NaN [simp]: "flt x NaN = False" "flt NaN x = False"
  by (cases x, simp_all)+

lemma round2_zero: "round2 0 = 0"
  by (simp add: round2_def round_half_even_def)

lemma score_single_row:
  "score_indicators p [b] =
     \<lparr> ts_rsi = NaN, ts_sma_50 = NaN, ts_sma_200 = NaN, ts_macd = Fin 0, ts_macd_signal = Fin 0,
       ts_stoch_k = NaN, ts_stoch_d = NaN, ts_ema_9 = Fin (round2 (bar_close b)),
       ts_ema_21 = Fin (round2 (bar_close b)), ts_bb_upper = NaN, ts_bb_lower = NaN,
       technical_score = 0, verdict = ''Bearish'', action = ''AVOID'',
       signals = [''EMA 9 < EMA 21 (Short Term Bearish)''], trend = ''Bearish'' \<rparr>"
  by (simp add: score_indicators_def single_row_columns fgt_def fle_def fge_def points_def
        round2_zero Let_def)


lemma single_row_analysed: "analysed_history no_fetch single_row_snapshot = Some [one_bar]"
  by (simp add: analysed_history_def single_row_snapshot_def history_to_analyse_def)

lemma empty_analysed: "analysed_history no_fetch empty_history_snapshot = None"
  by (simp add: analysed_history_def empty_history_snapshot_def history_to_analyse_def no_fetch_def)

lemma technical_by_history:
  "get_technical_indicators fetch sd =
     (case analysed_history fetch sd of
        None \<Rightarrow> get_fallback_indicators (get_default sd ''current_price'' 0)
      | Some h \<Rightarrow>
          if h = [] then get_fallback_indicators (get_default sd ''current_price'' 0)
          else (case as_fl (get_default sd ''current_price'' 0) of
                  Inl e \<Rightarrow> get_fallback_indicators (get_default sd ''current_price'' 0)
                | Inr p \<Rightarrow> Inr (score_indicators p h)))"
  by (simp add: get_technical_indicators_def analysed_history_def Let_def
        split: option.splits pystr.splits list.splits sum.splits)

lemma fallback_total:
  "v \<noteq> PNone \<Longrightarrow> \<exists>r. get_fallback_indicators v = Inr r \<and> technical_score r = 50 \<and>
     verdict r = ''Data Not Available''"
  by (cases v) (simp_all add: get_fallback_indicators_def)

text \<open>
  C7, as it is stated, fails for a history of one row: such a history is not empty, so
  the indicators are computed; every rolling indicator is undefined, the two EMAs are
  equal, no rule adds a point, and the snapshot returned has score 0 and verdict
  Bearish, not the fallback's 50 and \<open>Data Not Available\<close>.
\<close>

theorem single_row_is_scored:
  "get_technical_indicators no_fetch single_row_snapshot =
     Inr \<lparr> ts_rsi = NaN, ts_sma_50 = NaN, ts_sma_200 = NaN, ts_macd = Fin 0,
           ts_macd_signal = Fin 0, ts_stoch_k = NaN, ts_stoch_d = NaN, ts_ema_9 = Fin 100,
           ts_ema_21 = Fin 100, ts_bb_upper = NaN, ts_bb_lower = NaN,
           technical_score = 0, verdict = ''Bearish'', action = ''AVOID'',
           signals = [''EMA 9 < EMA 21 (Short Term Bearish)''], trend = ''Bearish'' \<rparr>"
proof -
  have "get_default single_row_snapshot ''current_price'' 0 = PFloat (Fin 100)"
    by (simp add: get_default_def single_row_snapshot_def)
  then show ?thesis
    by (simp add: technical_by_history single_row_analysed score_single_row one_bar_def
          round2_def round_half_even_def)
qed

text \<open>
  C7, amended. When the price is not \<open>None\<close> the function returns a snapshot and
  never raises. The snapshot is the fallback, with score 50 and verdict
  \<open>Data Not Available\<close>, when there is no history to score: no symbol, a failing
  fetch, or an empty history (from the snapshot or, that one being absent or empty,
  from the fetch). A history of exactly one row is scored: the result has score 0,
  verdict Bearish and action AVOID.
\<close>

theorem technical_fallback_and_single_row:
  assumes "get_default sd ''current_price'' 0 \<noteq> PNone"
  shows "\<exists>r. get_technical_indicators fetch sd = Inr r \<and>
     (analysed_history fetch sd = None \<or> analysed_history fetch sd = Some [] \<longrightarrow>
        get_fallback_indicators (get_default sd ''current_price'' 0) = Inr r \<and>
        technical_score r = 50 \<and> verdict r = ''Data Not Available'') \<and>
     (\<forall>b. analysed_history fetch sd = Some [b] \<longrightarrow>
        technical_score r = 0 \<and> verdict r = ''Bearish'' \<and> action r = ''AVOID'')"
proof -
  obtain p where p: "as_fl (get_default sd ''current_price'' 0) = Inr p"
    using assms by (cases "get_default sd ''current_price'' 0") auto
  obtain r0 where r0: "get_fallback_indicators (get_default sd ''current_price'' 0) = Inr r0"
    "technical_score r0 = 50" "verdict r0 = ''Data Not Available''"
    using fallback_total [OF assms] by blast
  show ?thesis
  proof (cases "analysed_history fetch sd")
    case None
    then show ?thesis using r0 by (simp add: technical_by_history)
  next
    case (Some h)
    show ?thesis
    proof (cases h)
      case Nil
      then show ?thesis using Some r0 by (simp add: technical_by_history)
    next
      case (Cons b bs)
      then show ?thesis
        using Some p by (cases bs) (simp_all add: technical_by_history score_single_row)
    qed
  qed
qed

theorem technical_fallback_and_single_row_examples:
  "(\<exists>r. get_technical_indicators no_fetch empty_history_snapshot = Inr r \<and>
        technical_score r = 50 \<and> verdict r = ''Data Not Available'') \<and>
   (\<exists>r. get_technical_indicators no_fetch single_row_snapshot = Inr r \<and>
        technical_score r = 0 \<and> verdict r = ''Bearish'')"
proof -
  have "get_default empty_history_snapshot ''current_price'' 0 \<noteq> PNone"
       "get_default single_row_snapshot ''current_price'' 0 \<noteq> PNone"
    by (simp_all add: get_default_def empty_history_snapshot_def single_row_snapshot_def)
  from technical_fallback_and_single_row [OF this(1), of no_fetch]
       technical_fallback_and_single_row [OF this(2), of no_fetch]
  show ?thesis
    using empty_analysed single_row_analysed by auto
qed

subsection \<open>Stochastic oscillator\<close>

lemma rolling_nth:
  "i < length xs \<Longrightarrow> rolling n agg xs ! i =
     (if i + 1 < n then NaN else agg (take n (drop (i + 1 - n) xs)))"
  by (simp add: rolling_def)

lemma length_rolling [simp]: "length (rolling n agg xs) = length xs"
  by (simp add: rolling_def)

lemma funpow_min_same: "(min (a::real) ^^ n) a = a"
  by (induction n) simp_all

lemma funpow_max_same: "(max (a::real) ^^ n) a = a"
  by (induction n) simp_all

lemma flat_history_stoch_k: "stoch_k_series flat_history ! 13 = NaN"
  by (simp add: stoch_k_series_def Let_def rolling_nth window_min_def window_max_def
        flat_history_def flat_bar_def fsub_def funpow_min_same funpow_max_same)

text \<open>
  C8, as it is stated, fails: the division of \<open>_calculate_stochastic\<close> has no guard.
  For fourteen identical bars the 14-period high equals the 14-period low, the quotient
  is \<open>0 / 0\<close>, and %K is NaN: neither zero nor a neutral value is put in its place.
\<close>

theorem stochastic_flat_range_unguarded:
  "stoch_k_series flat_history ! 13 = NaN \<and>
   stoch_k_series flat_history ! 13 \<noteq> Fin 0 \<and> stoch_k_series flat_history ! 13 \<noteq> Fin 50"
  by (simp add: flat_history_stoch_k)

text \<open>
  C8, amended. From the 14th row on, %K is
  \<open>100 * (close - low_min) / (high_max - low_min)\<close> with the minimum of the last 14
  lows and the maximum of the last 14 highs, computed without a guard and without an
  exception: where the two are equal the division by zero is carried out as floating
  point does it, giving NaN when the close equals them and an infinity otherwise.
\<close>

theorem stochastic_k_value:
  assumes "13 \<le> i" "i < length bars"
      and "lo = fold min (map bar_low (take 14 (drop (i - 13) bars)))
                  (hd (map bar_low (take 14 (drop (i - 13) bars))))"
      and "hi = fold max (map bar_high (take 14 (drop (i - 13) bars)))
                  (hd (map bar_high (take 14 (drop (i - 13) bars))))"
      and "c = bar_close (bars ! i)"
  shows "stoch_k_series bars ! i =
     (if hi = lo then (if c = lo then NaN else if c > lo then PInf else NInf)
      else Fin (100 * ((c - lo) / (hi - lo))))"
proof -
  have "stoch_k_series bars ! i =
      fmul (Fin 100) (fdiv (fsub (Fin c) (Fin lo)) (fsub (Fin hi) (Fin lo)))"
    using assms
    by (simp add: stoch_k_series_def Let_def rolling_nth window_min_def window_max_def
          take_map drop_map)
  then show ?thesis
    by (simp add: fsub_def)
qed

theorem stochastic_k_value_flat_history:
  "stoch_k_series flat_history ! 13 = NaN \<and> length flat_history = 14"
proof -
  have "fold min (map bar_low (take 14 (drop (13 - 13) flat_history)))
          (hd (map bar_low (take 14 (drop (13 - 13) flat_history)))) = 100"
       "fold max (map bar_high (take 14 (drop (13 - 13) flat_history)))
          (hd (map bar_high (take 14 (drop (13 - 13) flat_history)))) = 100"
       "bar_close (flat_history ! 13) = 100"
    by (simp_all add: flat_history_def flat_bar_def funpow_min_same funpow_max_same)
  from stochastic_k_value [OF _ _ this(1) [symmetric] this(2) [symmetric] this(3) [symmetric], of ]
  show ?thesis by (simp add: flat_history_def)
qed


end
